theory Spec2Isabelle
  imports Complex_Main
begin

section \<open>JavaScript values used by \<^verbatim>\<open>ipinfo.js\<close>\<close>

text \<open>
  A JavaScript string is a sequence of UTF-16 code units. \<open>js\<close> turns an ASCII literal
  into its code units; characters outside ASCII are written as their code units
  (an emoji of the supplementary planes is a surrogate pair).
\<close>

type_synonym jstr = "nat list"

definition js :: "string \<Rightarrow> jstr" where
  "js s = map of_char s"

section \<open>String operations of the language\<close>

text \<open>
  \<open>s.split(c)\<close> for a separator of one code unit: the pieces between the occurrences
  of \<open>c\<close>, in order. The result is never empty (\<open>''.split('.')\<close> is \<open>['']\<close>).
\<close>

fun split_char :: "nat \<Rightarrow> jstr \<Rightarrow> jstr list" where
  "split_char c [] = [[]]"
| "split_char c (x # xs) =
     (if x = c then [] # split_char c xs
      else (case split_char c xs of g # gs \<Rightarrow> (x # g) # gs | [] \<Rightarrow> [[x]]))"

text \<open>\<open>xs[i]\<close>: reading past the end of an array gives \<open>undefined\<close>, here \<open>None\<close>.\<close>

definition nth_opt :: "'a list \<Rightarrow> nat \<Rightarrow> 'a option" where
  "nth_opt xs i = (if i < length xs then Some (xs ! i) else None)"

text \<open>White space and line terminators of ECMAScript, as code units.\<close>

definition is_white_space :: "nat \<Rightarrow> bool" where
  "is_white_space c =
     (c = 9 \<or> c = 10 \<or> c = 11 \<or> c = 12 \<or> c = 13 \<or> c = 32 \<or> c = 160 \<or> c = 5760 \<or>
      (8192 \<le> c \<and> c \<le> 8202) \<or> c = 8232 \<or> c = 8233 \<or> c = 8239 \<or> c = 8287 \<or>
      c = 12288 \<or> c = 65279)"

definition trim :: "jstr \<Rightarrow> jstr" where
  "trim s = rev (dropWhile is_white_space (rev (dropWhile is_white_space s)))"

definition is_digit :: "nat \<Rightarrow> bool" where
  "is_digit c = (48 \<le> c \<and> c \<le> 57)"

definition is_hex_digit :: "nat \<Rightarrow> bool" where
  "is_hex_digit c = (is_digit c \<or> (65 \<le> c \<and> c \<le> 70) \<or> (97 \<le> c \<and> c \<le> 102))"

definition digit_value :: "nat \<Rightarrow> nat" where
  "digit_value c = (if is_digit c then c - 48 else if 97 \<le> c then c - 87 else c - 55)"

definition radix_value :: "nat \<Rightarrow> jstr \<Rightarrow> nat" where
  "radix_value r ds = foldl (\<lambda>a c. r * a + digit_value c) 0 ds"

text \<open>A number that came out of a string: \<open>NaN\<close> or an integer.\<close>

datatype num = NaN | Num int

text \<open>
  \<open>parseInt(s)\<close> with no radix: leading white space is skipped, a sign is read, the
  prefix \<open>0x\<close> selects radix 16, and the longest run of digits is the value; no digit
  gives \<open>NaN\<close>. The value is the mathematical integer (the engine rounds it to a
  double, which changes nothing below \<open>2^53\<close>).
\<close>

definition parseInt :: "jstr \<Rightarrow> num" where
  "parseInt s =
     (let s1 = dropWhile is_white_space s;
          neg = (case s1 of [] \<Rightarrow> False | x # _ \<Rightarrow> x = 45);
          s2 = (case s1 of [] \<Rightarrow> s1 | x # xs \<Rightarrow> if x = 43 \<or> x = 45 then xs else s1);
          hex = (take 2 s2 = [48, 120] \<or> take 2 s2 = [48, 88]);
          s3 = (if hex then drop 2 s2 else s2);
          z = takeWhile (if hex then is_hex_digit else is_digit) s3
      in if z = [] then NaN
         else Num ((if neg then - 1 else 1) * int (radix_value (if hex then 16 else 10) z)))"

text \<open>
  \<open>Number(s)\<close> of a string, on the strings an address can be split into: surrounding
  white space is dropped, the empty string is \<open>0\<close>, a run of decimal digits is its
  value. The other numeric literals of the language (a sign, a fraction, an exponent,
  a radix prefix, \<open>Infinity\<close>) are not part of this model, which maps them to \<open>NaN\<close>
  like every other string; no group of a validated address has such a form.
\<close>

definition to_Number :: "jstr \<Rightarrow> num" where
  "to_Number s =
     (let t = trim s
      in if t = [] then Num 0
         else if list_all is_digit t then Num (int (radix_value 10 t))
         else NaN)"

text \<open>
  Comparing an array element with an integer constant: \<open>===\<close>, \<open>>=\<close> and \<open><=\<close> are
  false of \<open>undefined\<close> and of \<open>NaN\<close>.
\<close>

definition strict_eq :: "num option \<Rightarrow> int \<Rightarrow> bool" where
  "strict_eq v n = (v = Some (Num n))"

definition rel_ge :: "num option \<Rightarrow> int \<Rightarrow> bool" where
  "rel_ge v n = (case v of Some (Num k) \<Rightarrow> n \<le> k | _ \<Rightarrow> False)"

definition rel_le :: "num option \<Rightarrow> int \<Rightarrow> bool" where
  "rel_le v n = (case v of Some (Num k) \<Rightarrow> k \<le> n | _ \<Rightarrow> False)"

section \<open>Regular expressions\<close>

text \<open>
  The fragment of the regular expressions of the language that the validator uses: a
  literal code unit, a class \<open>[a-b]\<close>, concatenation, and the bounded repetition
  \<open>{m,n}\<close> (\<open>{n}\<close> is \<open>{n,n}\<close>). \<open>rmatch r s\<close> lists, in the order a backtracking
  matcher tries them, what can remain of \<open>s\<close> after a match of \<open>r\<close> at its start.
\<close>

datatype regex =
    Lit nat
  | Range nat nat
  | Seq regex regex
  | Rep nat nat regex

primrec rx_iter :: "(jstr \<Rightarrow> jstr list) \<Rightarrow> nat \<Rightarrow> jstr \<Rightarrow> jstr list" where
  "rx_iter f 0 s = [s]"
| "rx_iter f (Suc k) s = concat (map (rx_iter f k) (f s))"

primrec rmatch :: "regex \<Rightarrow> jstr \<Rightarrow> jstr list" where
  "rmatch (Lit c) = (\<lambda>s. case s of [] \<Rightarrow> [] | x # xs \<Rightarrow> if x = c then [xs] else [])"
| "rmatch (Range lo hi) =
     (\<lambda>s. case s of [] \<Rightarrow> [] | x # xs \<Rightarrow> if lo \<le> x \<and> x \<le> hi then [xs] else [])"
| "rmatch (Seq a b) = (\<lambda>s. concat (map (rmatch b) (rmatch a s)))"
| "rmatch (Rep m n r) = (\<lambda>s. concat (map (\<lambda>k. rx_iter (rmatch r) k s) (rev [m..<Suc n])))"

text \<open>\<open>/^r$/.test(s)\<close>: some match of \<open>r\<close> from the start of \<open>s\<close> leaves nothing.\<close>

definition regex_test :: "regex \<Rightarrow> jstr \<Rightarrow> bool" where
  "regex_test r s = ([] \<in> set (rmatch r s))"

text \<open>The words a regular expression denotes, to state what the matcher decides.\<close>

primrec lang_pow :: "jstr set \<Rightarrow> nat \<Rightarrow> jstr set" where
  "lang_pow L 0 = {[]}"
| "lang_pow L (Suc k) = {u @ v | u v. u \<in> L \<and> v \<in> lang_pow L k}"

primrec lang :: "regex \<Rightarrow> jstr set" where
  "lang (Lit c) = {[c]}"
| "lang (Range lo hi) = {[x] | x. lo \<le> x \<and> x \<le> hi}"
| "lang (Seq a b) = {u @ v | u v. u \<in> lang a \<and> v \<in> lang b}"
| "lang (Rep m n r) = (\<Union>k\<in>{m..n}. lang_pow (lang r) k)"

section \<open>The address validator\<close>

text \<open>\<^verbatim>\<open>const ipRegex = /^(?:[0-9]{1,3}\.){3}[0-9]{1,3}$/;\<close>\<close>

definition ipRegex :: regex where
  "ipRegex = Seq (Rep 3 3 (Seq (Rep 1 3 (Range 48 57)) (Lit 46))) (Rep 1 3 (Range 48 57))"

text \<open>
  The specification's words, to compare the validator with: a group is one to three
  decimal digits, and a dotted quad is four groups separated by dots.
\<close>

definition digit_group :: "jstr \<Rightarrow> bool" where
  "digit_group g = (1 \<le> length g \<and> length g \<le> 3 \<and> list_all is_digit g)"

definition dotted_quad :: "jstr \<Rightarrow> bool" where
  "dotted_quad s =
     (\<exists>a b c d. digit_group a \<and> digit_group b \<and> digit_group c \<and> digit_group d \<and>
        s = a @ [46] @ b @ [46] @ c @ [46] @ d)"

section \<open>Octet classifiers\<close>

definition class_a :: jstr where
  "class_a = js ''Class A '' @ [0xD83C, 0xDFE2] @ js '' (Large networks)''"

definition class_b :: jstr where
  "class_b = js ''Class B '' @ [0xD83C, 0xDFE2] @ js '' (Medium networks)''"

definition class_c :: jstr where
  "class_c = js ''Class C '' @ [0xD83C, 0xDFE0] @ js '' (Small networks)''"

definition class_d :: jstr where
  "class_d = js ''Class D '' @ [0xD83D, 0xDCE1] @ js '' (Multicast)''"

definition class_e :: jstr where
  "class_e = js ''Class E '' @ [0xD83D, 0xDD27] @ js '' (Experimental)''"

text \<open>\<open>parseInt(ip.split('.')[0])\<close>; \<open>parseInt(undefined)\<close> would be \<open>NaN\<close>.\<close>

definition firstOctet :: "jstr \<Rightarrow> num" where
  "firstOctet ip = (case nth_opt (split_char 46 ip) 0 of None \<Rightarrow> NaN | Some g \<Rightarrow> parseInt g)"

definition getIPType :: "jstr \<Rightarrow> jstr" where
  "getIPType ip =
     (if rel_le (Some (firstOctet ip)) 127 then class_a
      else if rel_le (Some (firstOctet ip)) 191 then class_b
      else if rel_le (Some (firstOctet ip)) 223 then class_c
      else if rel_le (Some (firstOctet ip)) 239 then class_d
      else class_e)"

text \<open>\<open>ip.split('.').map(Number)\<close>\<close>

definition parts_of :: "jstr \<Rightarrow> num list" where
  "parts_of ip = map to_Number (split_char 46 ip)"

definition isPrivateIP :: "jstr \<Rightarrow> bool" where
  "isPrivateIP ip =
     (let parts = parts_of ip
      in strict_eq (nth_opt parts 0) 10 \<or>
         (strict_eq (nth_opt parts 0) 172 \<and> rel_ge (nth_opt parts 1) 16 \<and>
          rel_le (nth_opt parts 1) 31) \<or>
         (strict_eq (nth_opt parts 0) 192 \<and> strict_eq (nth_opt parts 1) 168))"

definition isReservedIP :: "jstr \<Rightarrow> bool" where
  "isReservedIP ip =
     (let parts = parts_of ip
      in strict_eq (nth_opt parts 0) 0 \<or> rel_ge (nth_opt parts 0) 224)"

definition isBogonIP :: "jstr \<Rightarrow> bool" where
  "isBogonIP ip =
     (let parts = parts_of ip
      in strict_eq (nth_opt parts 0) 127 \<or>
         (strict_eq (nth_opt parts 0) 169 \<and> strict_eq (nth_opt parts 1) 254))"

definition risk_private :: jstr where
  "risk_private = [0xD83D, 0xDFE2] @ js '' Safe (Private Network)''"

definition risk_reserved :: jstr where
  "risk_reserved = [0xD83D, 0xDFE1] @ js '' Caution (Reserved IP)''"

definition risk_bogon :: jstr where
  "risk_bogon = [0xD83D, 0xDFE1] @ js '' Warning (Bogon IP)''"

definition risk_public :: jstr where
  "risk_public = [0xD83D, 0xDFE1] @ js '' Moderate (Public IP)''"

definition assessRisk :: "jstr \<Rightarrow> jstr" where
  "assessRisk ip =
     (if isPrivateIP ip then risk_private
      else if isReservedIP ip then risk_reserved
      else if isBogonIP ip then risk_bogon
      else risk_public)"

definition recommend_private :: "jstr list" where
  "recommend_private = [[0x2705] @ js '' Safe for internal networks'']"

definition recommend_reserved :: "jstr list" where
  "recommend_reserved = [[0x26A0, 0xFE0F] @ js '' This IP range is reserved'']"

definition recommend_public :: "jstr list" where
  "recommend_public =
     [[0xD83D, 0xDD12] @ js '' Use firewall protection'',
      [0xD83D, 0xDEE1, 0xFE0F] @ js '' Enable security monitoring'',
      [0xD83C, 0xDF10] @ js '' Use VPN for privacy'']"

definition getSecurityRecommendations :: "jstr \<Rightarrow> jstr list" where
  "getSecurityRecommendations ip =
     (if isPrivateIP ip then recommend_private
      else if isReservedIP ip then recommend_reserved
      else recommend_public)"

section \<open>Classifications from latitude\<close>

text \<open>
  \<^verbatim>\<open>
  function getHemisphere(lat) {
    if (!lat) return 'Unknown';
    return lat >= 0 ? 'Northern <U+1F30E>' : 'Southern <U+1F30D>';
  }
  \<close>
  The latitude is \<open>ipData.lat\<close>: absent (\<open>None\<close>, the value \<open>undefined\<close>) or a
  number. \<open>!lat\<close> holds of \<open>undefined\<close> and of the number zero; \<open>truthy_num\<close> gives
  the number when \<open>!lat\<close> does not hold. A latitude is compared with constants only,
  so a real number stands for the double.
\<close>

definition truthy_num :: "real option \<Rightarrow> real option" where
  "truthy_num v = (case v of None \<Rightarrow> None | Some x \<Rightarrow> if x = 0 then None else Some x)"

definition hemisphere_unknown :: jstr where
  "hemisphere_unknown = js ''Unknown''"

definition hemisphere_northern :: jstr where
  "hemisphere_northern = js ''Northern '' @ [0xD83C, 0xDF0E]"

definition hemisphere_southern :: jstr where
  "hemisphere_southern = js ''Southern '' @ [0xD83C, 0xDF0D]"

definition getHemisphere :: "real option \<Rightarrow> jstr" where
  "getHemisphere lat =
     (case truthy_num lat of
        None \<Rightarrow> hemisphere_unknown
      | Some x \<Rightarrow> if x \<ge> 0 then hemisphere_northern else hemisphere_southern)"

section \<open>Values, truthiness and conversions\<close>

text \<open>
  The values that reach the response body. \<open>JUndefined\<close> is \<open>undefined\<close> (a member
  the serialiser leaves out), \<open>JFunction\<close> stands for a built-in function, which only an
  inherited member of a lookup table can be.
\<close>

datatype jsval =
    JUndefined
  | JBool bool
  | JNum real
  | JStr jstr
  | JArr "jsval list"
  | JObj "(jstr \<times> jsval) list"
  | JFunction

text \<open>An optional field of the upstream body as a value: absent is \<open>undefined\<close>.\<close>

definition of_str :: "jstr option \<Rightarrow> jsval" where
  "of_str v = (case v of None \<Rightarrow> JUndefined | Some s \<Rightarrow> JStr s)"

definition of_num :: "real option \<Rightarrow> jsval" where
  "of_num v = (case v of None \<Rightarrow> JUndefined | Some x \<Rightarrow> JNum x)"

text \<open>ToBoolean, and \<open>a || b\<close>.\<close>

fun truthy :: "jsval \<Rightarrow> bool" where
  "truthy JUndefined = False"
| "truthy (JBool b) = b"
| "truthy (JNum x) = (x \<noteq> 0)"
| "truthy (JStr s) = (s \<noteq> [])"
| "truthy (JArr xs) = True"
| "truthy (JObj ms) = True"
| "truthy JFunction = True"

definition js_or :: "jsval \<Rightarrow> jsval \<Rightarrow> jsval" where
  "js_or a b = (if truthy a then a else b)"

text \<open>\<open>v || 'literal'\<close> inside a template or where a string is wanted, for a string field.\<close>

definition str_or :: "jstr option \<Rightarrow> jstr \<Rightarrow> jstr" where
  "str_or v d = (case v of None \<Rightarrow> d | Some s \<Rightarrow> if s = [] then d else s)"

text \<open>
  A string field where the code tests it for truth (\<open>if (!v)\<close>, \<open>v ? a : b\<close>,
  \<open>v && e\<close>): the string when it is there and not empty.
\<close>

definition truthy_str :: "jstr option \<Rightarrow> jstr option" where
  "truthy_str v = (case v of None \<Rightarrow> None | Some s \<Rightarrow> if s = [] then None else Some s)"

text \<open>\<open>${v}\<close> in a template literal, and \<open>table[v]\<close> as a property key, for a string field.\<close>

definition tmpl_str :: "jstr option \<Rightarrow> jstr" where
  "tmpl_str v = (case v of None \<Rightarrow> js ''undefined'' | Some s \<Rightarrow> s)"

text \<open>
  \<open>s.includes(sub)\<close>, here \<open>str_includes\<close>, and the case mappings on the letters of
  ASCII. The case mappings of the language also change letters outside ASCII; the model
  leaves those code units as they are, so it is exact on ASCII strings such as a
  country code.
\<close>

fun str_includes :: "jstr \<Rightarrow> jstr \<Rightarrow> bool" where
  "str_includes [] sub = (sub = [])"
| "str_includes (x # xs) sub = (take (length sub) (x # xs) = sub \<or> str_includes xs sub)"

definition toUpperCase :: "jstr \<Rightarrow> jstr" where
  "toUpperCase s = map (\<lambda>c. if 97 \<le> c \<and> c \<le> 122 then c - 32 else c) s"

definition toLowerCase :: "jstr \<Rightarrow> jstr" where
  "toLowerCase s = map (\<lambda>c. if 65 \<le> c \<and> c \<le> 90 then c + 32 else c) s"

text \<open>\<open>s.replace(/pat/, rep)\<close> for a pattern of literal code units: the first occurrence.\<close>

fun replace_first :: "jstr \<Rightarrow> jstr \<Rightarrow> jstr \<Rightarrow> jstr" where
  "replace_first pat rep [] = (if pat = [] then rep else [])"
| "replace_first pat rep (x # xs) =
     (if take (length pat) (x # xs) = pat then rep @ drop (length pat) (x # xs)
      else x # replace_first pat rep xs)"

text \<open>
  A lookup \<open>table[key]\<close> in an object literal: an own member, or else a member inherited
  from \<open>Object.prototype\<close> (its functions, and the prototype object under
  \<open>__proto__\<close>), or else \<open>undefined\<close>.
\<close>

definition prototype_functions :: "jstr list" where
  "prototype_functions =
     [js ''constructor'', js ''__defineGetter__'', js ''__defineSetter__'',
      js ''hasOwnProperty'', js ''__lookupGetter__'', js ''__lookupSetter__'',
      js ''isPrototypeOf'', js ''propertyIsEnumerable'', js ''toString'', js ''valueOf'',
      js ''toLocaleString'']"

definition lookup :: "(jstr \<times> jsval) list \<Rightarrow> jstr \<Rightarrow> jsval" where
  "lookup table key =
     (case map_of table key of
        Some v \<Rightarrow> v
      | None \<Rightarrow>
          if key \<in> set prototype_functions then JFunction
          else if key = js ''__proto__'' then JObj []
          else JUndefined)"

section \<open>The country flag\<close>

text \<open>
  \<open>String.fromCodePoint(...cps)\<close>: a \<open>RangeError\<close> (here \<open>None\<close>) when a code point is
  beyond \<open>0x10FFFF\<close>, else the UTF-16 encoding of the code points.
\<close>

definition utf16_encode :: "nat \<Rightarrow> jstr" where
  "utf16_encode cp =
     (if cp < 0x10000 then [cp]
      else [0xD800 + (cp - 0x10000) div 0x400, 0xDC00 + (cp - 0x10000) mod 0x400])"

definition fromCodePoint :: "nat list \<Rightarrow> jstr option" where
  "fromCodePoint cps =
     (if list_all (\<lambda>cp. cp \<le> 0x10FFFF) cps then Some (concat (map utf16_encode cps))
      else None)"

definition flag_placeholder :: jstr where
  "flag_placeholder = [0xD83C, 0xDFF4]"

text \<open>
  \<^verbatim>\<open>
  function getCountryFlag(countryCode) {
    if (!countryCode) return flag_placeholder;
    try {
      const codePoints = countryCode.toUpperCase().split('')
        .map(char => 127397 + char.charCodeAt());
      return String.fromCodePoint(...codePoints);
    } catch (error) { return flag_placeholder; }
  }
  \<close>
  \<open>split('')\<close> cuts the string into its code units. The argument may be any value:
  a truthy value that is not a string has no \<open>toUpperCase\<close>, the call throws a
  \<open>TypeError\<close>, and the \<open>catch\<close> returns the placeholder.
\<close>

definition getCountryFlag :: "jsval \<Rightarrow> jstr" where
  "getCountryFlag countryCode =
     (if \<not> truthy countryCode then flag_placeholder
      else (case countryCode of
              JStr code \<Rightarrow>
                (case fromCodePoint (map (\<lambda>char. 127397 + char) (toUpperCase code)) of
                   None \<Rightarrow> flag_placeholder
                 | Some flag \<Rightarrow> flag)
            | _ \<Rightarrow> flag_placeholder))"

section \<open>Classifications of the upstream record\<close>

definition classifyISP :: "jstr option \<Rightarrow> jstr" where
  "classifyISP isp =
     (case truthy_str isp of
        None \<Rightarrow> js ''Unknown''
      | Some s \<Rightarrow>
          (let ispLower = toLowerCase s
           in if str_includes ispLower (js ''mobile'') \<or>
                 str_includes ispLower (js ''wireless'')
              then [0xD83D, 0xDCF1] @ js '' Mobile Carrier''
              else if str_includes ispLower (js ''comcast'') \<or>
                      str_includes ispLower (js ''att'') \<or>
                      str_includes ispLower (js ''verizon'')
              then [0xD83C, 0xDFE0] @ js '' Residential ISP''
              else if str_includes ispLower (js ''google'') \<or>
                      str_includes ispLower (js ''aws'') \<or>
                      str_includes ispLower (js ''azure'')
              then [0x2601, 0xFE0F] @ js '' Cloud Provider''
              else if str_includes ispLower (js ''host'') \<or>
                      str_includes ispLower (js ''server'')
              then [0xD83C, 0xDFE2] @ js '' Hosting Provider''
              else if str_includes ispLower (js ''education'') \<or>
                      str_includes ispLower (js ''university'')
              then [0xD83C, 0xDF93] @ js '' Educational''
              else if str_includes ispLower (js ''government'') \<or>
                      str_includes ispLower (js ''gov'')
              then [0xD83C, 0xDFDB, 0xFE0F] @ js '' Government''
              else [0xD83C, 0xDF10] @ js '' Internet Service Provider''))"

definition mobileKeywords :: "jstr list" where
  "mobileKeywords =
     [js ''mobile'', js ''wireless'', js ''cellular'', js ''vodafone'', js ''t-mobile'',
      js ''verizon wireless'']"

definition isMobileCarrier :: "jstr option \<Rightarrow> jstr" where
  "isMobileCarrier isp =
     (case truthy_str isp of
        None \<Rightarrow> js ''Unknown''
      | Some s \<Rightarrow>
          if list_ex (\<lambda>keyword. str_includes (toLowerCase s) keyword) mobileKeywords
          then [0xD83D, 0xDCF1] @ js '' Yes'' else [0x274C] @ js '' No'')"

definition hostingKeywords :: "jstr list" where
  "hostingKeywords =
     [js ''host'', js ''server'', js ''data center'', js ''cloud'', js ''amazon'',
      js ''google cloud'', js ''digitalocean'', js ''vultr'']"

definition isHostingProvider :: "jstr option \<Rightarrow> jstr" where
  "isHostingProvider isp =
     (case truthy_str isp of
        None \<Rightarrow> js ''Unknown''
      | Some s \<Rightarrow>
          if list_ex (\<lambda>keyword. str_includes (toLowerCase s) keyword) hostingKeywords
          then [0xD83C, 0xDFE2] @ js '' Yes'' else [0x274C] @ js '' No'')"

definition continents :: "(jstr \<times> jsval) list" where
  "continents =
     [(js ''US'', JStr (js ''North America '' @ [0xD83C, 0xDDFA, 0xD83C, 0xDDF8])),
      (js ''CA'', JStr (js ''North America '' @ [0xD83C, 0xDDE8, 0xD83C, 0xDDE6])),
      (js ''MX'', JStr (js ''North America '' @ [0xD83C, 0xDDF2, 0xD83C, 0xDDFD])),
      (js ''GB'', JStr (js ''Europe '' @ [0xD83C, 0xDDEC, 0xD83C, 0xDDE7])),
      (js ''DE'', JStr (js ''Europe '' @ [0xD83C, 0xDDE9, 0xD83C, 0xDDEA])),
      (js ''FR'', JStr (js ''Europe '' @ [0xD83C, 0xDDEB, 0xD83C, 0xDDF7])),
      (js ''IT'', JStr (js ''Europe '' @ [0xD83C, 0xDDEE, 0xD83C, 0xDDF9])),
      (js ''ES'', JStr (js ''Europe '' @ [0xD83C, 0xDDEA, 0xD83C, 0xDDF8])),
      (js ''CN'', JStr (js ''Asia '' @ [0xD83C, 0xDDE8, 0xD83C, 0xDDF3])),
      (js ''JP'', JStr (js ''Asia '' @ [0xD83C, 0xDDEF, 0xD83C, 0xDDF5])),
      (js ''IN'', JStr (js ''Asia '' @ [0xD83C, 0xDDEE, 0xD83C, 0xDDF3])),
      (js ''KR'', JStr (js ''Asia '' @ [0xD83C, 0xDDF0, 0xD83C, 0xDDF7])),
      (js ''SG'', JStr (js ''Asia '' @ [0xD83C, 0xDDF8, 0xD83C, 0xDDEC])),
      (js ''BR'', JStr (js ''South America '' @ [0xD83C, 0xDDE7, 0xD83C, 0xDDF7])),
      (js ''AR'', JStr (js ''South America '' @ [0xD83C, 0xDDE6, 0xD83C, 0xDDF7])),
      (js ''CL'', JStr (js ''South America '' @ [0xD83C, 0xDDE8, 0xD83C, 0xDDF1])),
      (js ''AU'', JStr (js ''Oceania '' @ [0xD83C, 0xDDE6, 0xD83C, 0xDDFA])),
      (js ''NZ'', JStr (js ''Oceania '' @ [0xD83C, 0xDDF3, 0xD83C, 0xDDFF])),
      (js ''ZA'', JStr (js ''Africa '' @ [0xD83C, 0xDDFF, 0xD83C, 0xDDE6])),
      (js ''EG'', JStr (js ''Africa '' @ [0xD83C, 0xDDEA, 0xD83C, 0xDDEC])),
      (js ''NG'', JStr (js ''Africa '' @ [0xD83C, 0xDDF3, 0xD83C, 0xDDEC])),
      (js ''KE'', JStr (js ''Africa '' @ [0xD83C, 0xDDF0, 0xD83C, 0xDDEA]))]"

definition getContinent :: "jstr option \<Rightarrow> jsval" where
  "getContinent countryCode =
     js_or (lookup continents (tmpl_str countryCode)) (JStr (js ''Unknown '' @ [0xD83C, 0xDF0D]))"

definition languages :: "(jstr \<times> jsval) list" where
  "languages =
     [(js ''US'', JStr (js ''English '' @ [0xD83C, 0xDDFA, 0xD83C, 0xDDF8])),
      (js ''GB'', JStr (js ''English '' @ [0xD83C, 0xDDEC, 0xD83C, 0xDDE7])),
      (js ''CN'', JStr (js ''Chinese '' @ [0xD83C, 0xDDE8, 0xD83C, 0xDDF3])),
      (js ''JP'', JStr (js ''Japanese '' @ [0xD83C, 0xDDEF, 0xD83C, 0xDDF5])),
      (js ''DE'', JStr (js ''German '' @ [0xD83C, 0xDDE9, 0xD83C, 0xDDEA])),
      (js ''FR'', JStr (js ''French '' @ [0xD83C, 0xDDEB, 0xD83C, 0xDDF7])),
      (js ''ES'', JStr (js ''Spanish '' @ [0xD83C, 0xDDEA, 0xD83C, 0xDDF8])),
      (js ''IT'', JStr (js ''Italian '' @ [0xD83C, 0xDDEE, 0xD83C, 0xDDF9])),
      (js ''IN'', JStr (js ''Hindi, English '' @ [0xD83C, 0xDDEE, 0xD83C, 0xDDF3])),
      (js ''BR'', JStr (js ''Portuguese '' @ [0xD83C, 0xDDE7, 0xD83C, 0xDDF7])),
      (js ''RU'', JStr (js ''Russian '' @ [0xD83C, 0xDDF7, 0xD83C, 0xDDFA])),
      (js ''KR'', JStr (js ''Korean '' @ [0xD83C, 0xDDF0, 0xD83C, 0xDDF7])),
      (js ''AR'', JStr (js ''Arabic '' @ [0xD83C, 0xDDF8, 0xD83C, 0xDDE6])),
      (js ''NL'', JStr (js ''Dutch '' @ [0xD83C, 0xDDF3, 0xD83C, 0xDDF1]))]"

definition getLanguages :: "jstr option \<Rightarrow> jsval" where
  "getLanguages countryCode =
     js_or (lookup languages (tmpl_str countryCode)) (JStr (js ''Various languages''))"

definition currencies :: "(jstr \<times> jsval) list" where
  "currencies =
     [(js ''US'', JStr (js ''USD '' @ [0xD83D, 0xDCB5])),
      (js ''GB'', JStr (js ''GBP '' @ [0xD83D, 0xDCB7])),
      (js ''EU'', JStr (js ''EUR '' @ [0xD83D, 0xDCB6])),
      (js ''JP'', JStr (js ''JPY '' @ [0xD83D, 0xDCB4])),
      (js ''CN'', JStr (js ''CNY '' @ [0xD83D, 0xDCB0])),
      (js ''IN'', JStr (js ''INR '' @ [0xD83D, 0xDCB8])),
      (js ''CA'', JStr (js ''CAD '' @ [0xD83D, 0xDCB5])),
      (js ''AU'', JStr (js ''AUD '' @ [0xD83D, 0xDCB5])),
      (js ''CH'', JStr (js ''CHF '' @ [0xD83D, 0xDCB5])),
      (js ''BR'', JStr (js ''BRL '' @ [0xD83D, 0xDCB5])),
      (js ''RU'', JStr (js ''RUB '' @ [0xD83D, 0xDCB5])),
      (js ''KR'', JStr (js ''KRW '' @ [0xD83D, 0xDCB5]))]"

definition getCurrencyInfo :: "jstr option \<Rightarrow> jsval" where
  "getCurrencyInfo countryCode =
     js_or (lookup currencies (tmpl_str countryCode)) 
       (JStr (js ''Local currency '' @ [0xD83D, 0xDCB5]))"

definition codes :: "(jstr \<times> jsval) list" where
  "codes =
     [(js ''US'', JStr (js ''+1'')),
      (js ''GB'', JStr (js ''+44'')),
      (js ''CN'', JStr (js ''+86'')),
      (js ''JP'', JStr (js ''+81'')),
      (js ''IN'', JStr (js ''+91'')),
      (js ''DE'', JStr (js ''+49'')),
      (js ''FR'', JStr (js ''+33'')),
      (js ''IT'', JStr (js ''+39'')),
      (js ''ES'', JStr (js ''+34'')),
      (js ''BR'', JStr (js ''+55''))]"

definition getCallingCode :: "jstr option \<Rightarrow> jsval" where
  "getCallingCode countryCode =
     js_or (lookup codes (tmpl_str countryCode)) (JStr (js ''Unknown''))"

definition emojis :: "(jstr \<times> jsval) list" where
  "emojis =
     [(js ''US'', JStr [0xD83D, 0xDDFD]),
      (js ''GB'', JStr [0xD83D, 0xDC51]),
      (js ''CN'', JStr [0xD83D, 0xDC09]),
      (js ''JP'', JStr [0xD83D, 0xDDFE]),
      (js ''IN'', JStr [0xD83D, 0xDC18]),
      (js ''FR'', JStr [0xD83E, 0xDD56]),
      (js ''IT'', JStr [0xD83C, 0xDF55]),
      (js ''DE'', JStr [0xD83C, 0xDF7A]),
      (js ''BR'', JStr [0xD83D, 0xDC83]),
      (js ''AU'', JStr [0xD83E, 0xDD98])]"

definition getRegionalEmoji :: "jstr option \<Rightarrow> jsval" where
  "getRegionalEmoji countryCode =
     js_or (lookup emojis (tmpl_str countryCode)) (JStr [0xD83C, 0xDF0D])"

definition estimateUsers :: "jstr option \<Rightarrow> jstr" where
  "estimateUsers asn =
     (case truthy_str asn of
        None \<Rightarrow> js ''Unknown''
      | Some s \<Rightarrow>
          if str_includes s (js ''AS15169'')
          then js ''Millions '' @ [0xD83D, 0xDC51] @ js '' (Google)''
          else if str_includes s (js ''AS32934'')
          then js ''Millions '' @ [0xD83D, 0xDC51] @ js '' (Facebook)''
          else if str_includes s (js ''AS8075'')
          then js ''Millions '' @ [0xD83D, 0xDC51] @ js '' (Microsoft)''
          else if str_includes s (js ''AS4134'')
          then js ''Millions '' @ [0xD83D, 0xDC51] @ js '' (China Telecom)''
          else js ''Thousands to Millions '' @ [0xD83D, 0xDC65])"

definition classifyNetwork :: "jstr \<Rightarrow> jstr" where
  "classifyNetwork ip =
     (if rel_le (Some (firstOctet ip)) 127
      then js ''Large network '' @ [0xD83C, 0xDFE2] @ js '' (16M+ hosts)''
      else if rel_le (Some (firstOctet ip)) 191
      then js ''Medium network '' @ [0xD83C, 0xDFE2] @ js '' (65K hosts)''
      else js ''Small network '' @ [0xD83C, 0xDFE0] @ js '' (254 hosts)'')"

definition classifyNetworkSize :: "jstr \<Rightarrow> jstr" where
  "classifyNetworkSize ip =
     (if strict_eq (Some (firstOctet ip)) 10
      then js ''Very Large '' @ [0xD83C, 0xDFE2] @ js '' (Private)''
      else if rel_le (Some (firstOctet ip)) 127
      then js ''Massive '' @ [0xD83C, 0xDF10] @ js '' (16M hosts)''
      else if rel_le (Some (firstOctet ip)) 191
      then js ''Large '' @ [0xD83C, 0xDFE2] @ js '' (65K hosts)''
      else js ''Small '' @ [0xD83C, 0xDFE0] @ js '' (254 hosts)'')"

definition getTimezoneEmoji :: "jstr option \<Rightarrow> jstr" where
  "getTimezoneEmoji timezone =
     (case truthy_str timezone of
        None \<Rightarrow> [0xD83D, 0xDD52]
      | Some s \<Rightarrow>
          if str_includes s (js ''Pacific'') then [0xD83C, 0xDF0A]
          else if str_includes s (js ''America'') then [0xD83C, 0xDDFA, 0xD83C, 0xDDF8]
          else if str_includes s (js ''Europe'') then [0xD83C, 0xDDEA, 0xD83C, 0xDDFA]
          else if str_includes s (js ''Asia'') then [0xD83C, 0xDF0F]
          else if str_includes s (js ''Australia'') then [0xD83C, 0xDDE6, 0xD83C, 0xDDFA]
          else [0xD83D, 0xDD52])"

definition calculateDistanceFromEquator :: "real option \<Rightarrow> jstr" where
  "calculateDistanceFromEquator lat =
     (case truthy_num lat of
        None \<Rightarrow> js ''Unknown''
      | Some x \<Rightarrow>
           (let distance = \<bar>x\<bar>
            in if distance < 10 then js ''Near equator '' @ [0xD83C, 0xDF34]
               else if distance < 30 then js ''Tropical zone '' @ [0x2600, 0xFE0F]
               else if distance < 60 then js ''Temperate zone '' @ [0xD83C, 0xDF38]
               else js ''Polar zone '' @ [0x2744, 0xFE0F]))"

definition getClimateZone :: "real option \<Rightarrow> jstr" where
  "getClimateZone lat =
     (case truthy_num lat of
        None \<Rightarrow> js ''Unknown''
      | Some x \<Rightarrow>
           (let absLat = \<bar>x\<bar>
            in if absLat < 23.5 then js ''Tropical '' @ [0xD83C, 0xDF34]
               else if absLat < 35 then js ''Subtropical '' @ [0x2600, 0xFE0F]
               else if absLat < 60 then js ''Temperate '' @ [0xD83C, 0xDF38]
               else js ''Polar '' @ [0x2744, 0xFE0F]))"

definition landmarks :: "(jstr \<times> jsval) list" where
  "landmarks =
     [(js ''United States'',
         JArr [JStr (js ''Statue of Liberty '' @ [0xD83D, 0xDDFD]),
               JStr (js ''Golden Gate Bridge '' @ [0xD83C, 0xDF09]),
               JStr (js ''White House '' @ [0xD83C, 0xDFDB, 0xFE0F])]),
      (js ''France'',
         JArr [JStr (js ''Eiffel Tower '' @ [0xD83D, 0xDDFC]),
               JStr (js ''Louvre Museum '' @ [0xD83C, 0xDFA8]),
               JStr (js ''Notre Dame Cathedral '' @ [0x26EA])]),
      (js ''China'',
         JArr [JStr (js ''Great Wall '' @ [0xD83D, 0xDC09]),
               JStr (js ''Forbidden City '' @ [0xD83C, 0xDFEF]),
               JStr (js ''Terracotta Army '' @ [0x2694, 0xFE0F])]),
      (js ''Japan'',
         JArr [JStr (js ''Mount Fuji '' @ [0xD83D, 0xDDFB]),
               JStr (js ''Tokyo Tower '' @ [0xD83D, 0xDDFC]),
               JStr (js ''Fushimi Inari Shrine '' @ [0x26E9, 0xFE0F])]),
      (js ''India'',
         JArr [JStr (js ''Taj Mahal '' @ [0xD83D, 0xDD4C]),
               JStr (js ''Gateway of India '' @ [0xD83C, 0xDFDB, 0xFE0F]),
               JStr (js ''Red Fort '' @ [0xD83C, 0xDFF0])]),
      (js ''United Kingdom'',
         JArr [JStr (js ''Big Ben '' @ [0xD83D, 0xDD70, 0xFE0F]),
               JStr (js ''London Eye '' @ [0xD83C, 0xDFA1]),
               JStr (js ''Buckingham Palace '' @ [0xD83D, 0xDC51])]),
      (js ''Italy'',
         JArr [JStr (js ''Colosseum '' @ [0xD83C, 0xDFDB, 0xFE0F]),
               JStr (js ''Leaning Tower '' @ [0xD83D, 0xDDFC]),
               JStr (js ''Venice Canals '' @ [0xD83D, 0xDEF6])]),
      (js ''Brazil'',
         JArr [JStr (js ''Christ the Redeemer '' @ [0x271D, 0xFE0F]),
               JStr (js ''Amazon Rainforest '' @ [0xD83C, 0xDF34]),
               JStr (js ''Copacabana Beach '' @ [0xD83C, 0xDFD6, 0xFE0F])])]"

text \<open>The second parameter, the city, is not used by the function.\<close>

definition getFamousLandmarks :: "jstr option \<Rightarrow> jstr option \<Rightarrow> jsval" where
  "getFamousLandmarks country city =
     (case truthy_str country of
        None \<Rightarrow> JStr (js ''Unknown'')
      | Some s \<Rightarrow>
          js_or (lookup landmarks s)
            (JArr [JStr (js ''Local attractions '' @ [0xD83C, 0xDFDE, 0xFE0F])]))"

section \<open>The upstream record, the request and the environment\<close>

text \<open>
  \<open>ipData\<close>, the body of the upstream reply: every field is optional (\<open>None\<close> is an
  absent field, read as \<open>undefined\<close>) and, when present, is a string, a number
  (\<open>lat\<close>, \<open>lon\<close>, \<open>offset\<close>) or a boolean (\<open>dst\<close>). A field of another type is
  outside this model. The fields \<open>zip\<close> and \<open>as\<close> carry a suffix here.
\<close>

record geo =
  status :: "jstr option"
  message :: "jstr option"
  country :: "jstr option"
  countryCode :: "jstr option"
  regionName :: "jstr option"
  city :: "jstr option"
  zip_field :: "jstr option"
  lat :: "real option"
  lon :: "real option"
  timezone :: "jstr option"
  offset :: "real option"
  dst :: "bool option"
  as_field :: "jstr option"
  org :: "jstr option"
  isp :: "jstr option"
  reverse :: "jstr option"

text \<open>A thrown error, with its \<open>message\<close>.\<close>

datatype js_error = JsError (error_message: jstr)

text \<open>
  \<open>response.data\<close>, what the HTTP client hands over of a reply it accepts: the object
  a JSON body was parsed into, the text of a body it could not parse (the client leaves
  such a body as the string it received), or \<open>null\<close> for the JSON body \<open>null\<close>. A body
  that is a JSON number, boolean or array is outside this model.
\<close>

datatype upstream_data = ObjectData geo | TextData jstr | NullData

text \<open>A value with none of the fields: what reading them of a string gives.\<close>

definition no_fields :: geo where
  "no_fields =
     \<lparr>status = None, message = None, country = None, countryCode = None,
      regionName = None, city = None, zip_field = None, lat = None, lon = None,
      timezone = None, offset = None, dst = None, as_field = None, org = None,
      isp = None, reverse = None\<rparr>"

text \<open>
  What the handler reads from outside: the outcome of the awaited \<open>axios.get(url)\<close>
  (a rejection, or \<open>response.data\<close>), the message of the \<open>TypeError\<close> the engine
  throws when a member of \<open>null\<close> is read, the clock as the two strings the handler
  asks of it (\<open>toLocaleString\<close> throws a \<open>RangeError\<close> on a time zone it does not
  know), the engine's conversion of a number to a string, and \<open>Math.random()\<close>.
\<close>

record env =
  axios_get :: "jstr \<Rightarrow> js_error + upstream_data"
  null_read_message :: jstr
  toISOString :: jstr
  toLocaleString :: "jstr option \<Rightarrow> js_error + jstr"
  number_to_string :: "real \<Rightarrow> jstr"
  random :: real

text \<open>
  \<open>ipData.status\<close> and the other members, read of \<open>response.data\<close>: the fields of
  an object, nothing of a string (every member the handler reads is \<open>undefined\<close>),
  and a \<open>TypeError\<close> of \<open>null\<close>, thrown at the first read.
\<close>

definition read_fields :: "env \<Rightarrow> upstream_data \<Rightarrow> js_error + geo" where
  "read_fields e d =
     (case d of
        ObjectData ipData \<Rightarrow> Inr ipData
      | TextData t \<Rightarrow> Inr no_fields
      | NullData \<Rightarrow> Inl (JsError (null_read_message e)))"

definition tmpl_num :: "env \<Rightarrow> real option \<Rightarrow> jstr" where
  "tmpl_num e v = (case v of None \<Rightarrow> js ''undefined'' | Some x \<Rightarrow> number_to_string e x)"

text \<open>
  The request: its method (\<open>req.method\<close>, here \<open>req_method\<close>), the query parameter
  \<open>ip\<close> and the two headers the handler reads, each a string or absent. A parameter
  given several times, which the platform hands over as an array, is outside this
  model.
\<close>

record request =
  req_method :: jstr
  query_ip :: "jstr option"
  x_forwarded_for :: "jstr option"
  x_real_ip :: "jstr option"

text \<open>
  The response: the headers set, the status, and the body given to \<open>json\<close>
  (\<open>None\<close> when the response is ended with no body).
\<close>

record response =
  headers :: "(jstr \<times> jstr) list"
  status_code :: nat
  body :: "jsval option"

section \<open>Notes and trivia\<close>

definition getSpecialNotes :: "jstr \<Rightarrow> geo \<Rightarrow> jstr list" where
  "getSpecialNotes ip ipData =
     (let notes = [];
          notes = (if isPrivateIP ip
                   then notes @ [[0xD83D, 0xDD12] @ js '' Private network IP''] else notes);
          notes = (if (case truthy_str (isp ipData) of
                         None \<Rightarrow> False | Some s \<Rightarrow> str_includes s (js ''Google''))
                   then notes @ [[0x2601, 0xFE0F] @ js '' Google infrastructure''] else notes);
          notes = (if (case truthy_str (isp ipData) of
                         None \<Rightarrow> False | Some s \<Rightarrow> str_includes s (js ''Amazon''))
                   then notes @ [[0x2601, 0xFE0F] @ js '' AWS cloud services''] else notes);
          notes = (if country ipData = Some (js ''United States'')
                   then notes @ [[0xD83C, 0xDDFA, 0xD83C, 0xDDF8] @
                     js '' US-based infrastructure'']
                   else notes);
          notes = (if country ipData = Some (js ''China'')
                   then notes @ [[0xD83C, 0xDDE8, 0xD83C, 0xDDF3] @
                     js '' China-based infrastructure'']
                   else notes);
          notes = (if length notes = 0
                   then notes @ [[0xD83C, 0xDF10] @ js '' Standard public IP address'']
                   else notes)
      in notes)"

definition facts :: "jstr list" where
  "facts =
     [[0xD83C, 0xDF10] @ js '' IP stands for Internet Protocol'',
      [0xD83D, 0xDD22] @ js '' IPv4 has 4.3 billion possible addresses'',
      [0xD83D, 0xDE80] @ js '' IPv6 has 340 undecillion possible addresses'',
      [0xD83D, 0xDCE1] @ js '' The first IP address was 0.0.0.0'',
      [0xD83D, 0xDD12] @ js '' Your IP can reveal your approximate location'',
      [0xD83C, 0xDF0D] @ js '' There are IP addresses in space (satellites)'',
      [0xD83D, 0xDCBE] @ js '' IP addresses are assigned by IANA'',
      [0xD83D, 0xDD75, 0xFE0F] @ js '' IP tracing is used for security and analytics'']"

text \<open>\<open>facts[Math.floor(Math.random() * facts.length)]\<close>\<close>

definition getRandomFunFact :: "env \<Rightarrow> geo \<Rightarrow> jsval" where
  "getRandomFunFact e ipData =
     (let i = \<lfloor>random e * real (length facts)\<rfloor>
      in if 0 \<le> i \<and> nat i < length facts then JStr (facts ! nat i) else JUndefined)"

section \<open>The response composer\<close>

text \<open>The keys of the ten sections, and the fixed threat level of the fourth.\<close>

definition section1_key :: jstr where
  "section1_key =
     js ''1'' @ [0xFE0F, 0x20E3] @ js '' '' @ [0xD83C, 0xDF0D] @ js '' Basic IP Information''"

definition section2_key :: jstr where
  "section2_key =
     js ''2'' @ [0xFE0F, 0x20E3] @ js '' '' @ [0xD83D, 0xDCCD] @ js '' Geolocation Details''"

definition section3_key :: jstr where
  "section3_key =
     js ''3'' @ [0xFE0F, 0x20E3] @ js '' '' @ [0xD83D, 0xDD52] @ js '' Timezone Information''"

definition section4_key :: jstr where
  "section4_key =
     js ''4'' @ [0xFE0F, 0x20E3] @ js '' '' @ [0xD83D, 0xDEE1, 0xFE0F] @
       js '' Security Assessment''"

definition section5_key :: jstr where
  "section5_key =
     js ''5'' @ [0xFE0F, 0x20E3] @ js '' '' @ [0xD83C, 0xDF10] @ js '' Network Information''"

definition section6_key :: jstr where
  "section6_key =
     js ''6'' @ [0xFE0F, 0x20E3] @ js '' '' @ [0xD83C, 0xDFE2] @ js '' ISP & Organization''"

definition section7_key :: jstr where
  "section7_key =
     js ''7'' @ [0xFE0F, 0x20E3] @ js '' '' @ [0xD83D, 0xDCB0] @ js '' Regional Info''"

definition section8_key :: jstr where
  "section8_key =
     js ''8'' @ [0xFE0F, 0x20E3] @ js '' '' @ [0xD83D, 0xDCCA] @ js '' Technical Analysis''"

definition section9_key :: jstr where
  "section9_key =
     js ''9'' @ [0xFE0F, 0x20E3] @ js '' '' @ [0xD83C, 0xDFAF] @ js '' Distance & Location''"

definition section10_key :: jstr where
  "section10_key =
     [0xD83D, 0xDD1F] @ js '' '' @ [0xD83D, 0xDCA1] @ js '' Fun Facts & Trivia''"

definition threat_level_medium :: jstr where
  "threat_level_medium = [0xD83D, 0xDFE1] @ js '' Medium (Public IP)''"

definition yes_no :: "bool \<Rightarrow> jsval" where
  "yes_no b = JStr (if b then [0x2705] @ js '' Yes'' else [0x274C] @ js '' No'')"

definition map_url :: "env \<Rightarrow> geo \<Rightarrow> jstr" where
  "map_url e ipData =
     js ''https://maps.google.com/?q='' @ tmpl_num e (lat ipData) @ js '','' @
     tmpl_num e (lon ipData)"

definition step1 :: "jstr \<Rightarrow> geo \<Rightarrow> jsval" where
  "step1 ip ipData =
     JObj [(js ''ip'', JStr ip),
           (js ''status'', JStr ([0x2705] @ js '' Valid IPv4 Address'')),
           (js ''version'', JStr (js ''IPv4'')),
           (js ''type'', JStr (getIPType ip)),
           (js ''reverse_dns'', js_or (of_str (reverse ipData)) (JStr (js ''Not available''))),
           (js ''query_status'', of_str (status ipData))]"

definition step2 :: "env \<Rightarrow> geo \<Rightarrow> jsval" where
  "step2 e ipData =
     JObj [(js ''country'',
              JStr (tmpl_str (country ipData) @ js '' '' @
                    getCountryFlag (of_str (countryCode ipData)))),
           (js ''country_code'', of_str (countryCode ipData)),
           (js ''region'', of_str (regionName ipData)),
           (js ''city'', of_str (city ipData)),
           (js ''zip_code'', of_str (zip_field ipData)),
           (js ''coordinates'',
              JObj [(js ''latitude'', of_num (lat ipData)),
                    (js ''longitude'', of_num (lon ipData)),
                    (js ''accuracy'', JStr (js ''City level'')),
                    (js ''map_url'', JStr (map_url e ipData))]),
           (js ''continent'', getContinent (countryCode ipData))]"

definition step3 :: "jstr \<Rightarrow> geo \<Rightarrow> jsval" where
  "step3 current_time ipData =
     JObj [(js ''timezone'', of_str (timezone ipData)),
           (js ''current_time'', JStr current_time),
           (js ''utc_offset'', of_num (offset ipData)),
           (js ''is_dst'', JStr (if dst ipData = Some True then js ''Yes'' else js ''No'')),
           (js ''timezone_emoji'', JStr (getTimezoneEmoji (timezone ipData)))]"

definition step4 :: "jstr \<Rightarrow> jsval" where
  "step4 ip =
     JObj [(js ''threat_level'', JStr threat_level_medium),
           (js ''is_private'', yes_no (isPrivateIP ip)),
           (js ''is_reserved'', yes_no (isReservedIP ip)),
           (js ''is_bogon'', yes_no (isBogonIP ip)),
           (js ''risk_assessment'', JStr (assessRisk ip)),
           (js ''recommendations'', JArr (map JStr (getSecurityRecommendations ip)))]"

definition step5 :: "geo \<Rightarrow> jsval" where
  "step5 ipData =
     JObj [(js ''asn'', js_or (of_str (as_field ipData)) (JStr (js ''Not available''))),
           (js ''organization'', js_or (of_str (org ipData)) (JStr (js ''Unknown''))),
           (js ''isp'', js_or (of_str (isp ipData)) (JStr (js ''Unknown''))),
           (js ''service_type'', JStr (classifyISP (isp ipData))),
           (js ''network_range'',
              (case truthy_str (as_field ipData) of
                 None \<Rightarrow> JStr (js ''Unknown'')
               | Some s \<Rightarrow>
                   (case nth_opt (split_char 32 s) 0 of
                      None \<Rightarrow> JUndefined
                    | Some g \<Rightarrow> JStr g)))]"

definition step6 :: "jstr \<Rightarrow> geo \<Rightarrow> jsval" where
  "step6 ip ipData =
     JObj [(js ''internet_service_provider'', of_str (isp ipData)),
           (js ''organization_name'', of_str (org ipData)),
           (js ''autonomous_system'', of_str (as_field ipData)),
           (js ''network_type'', JStr (classifyNetwork ip)),
           (js ''mobile_carrier'', JStr (isMobileCarrier (isp ipData))),
           (js ''hosting_provider'', JStr (isHostingProvider (isp ipData)))]"

definition step7 :: "geo \<Rightarrow> jsval" where
  "step7 ipData =
     JObj [(js ''continent'', getContinent (countryCode ipData)),
           (js ''languages'', getLanguages (countryCode ipData)),
           (js ''currency'', getCurrencyInfo (countryCode ipData)),
           (js ''calling_code'', getCallingCode (countryCode ipData)),
           (js ''regional_emoji'', getRegionalEmoji (countryCode ipData))]"

definition step8 :: "jstr \<Rightarrow> geo \<Rightarrow> jsval" where
  "step8 ip ipData =
     JObj [(js ''ip_class'', JStr (getIPType ip)),
           (js ''estimated_users'', JStr (estimateUsers (as_field ipData))),
           (js ''network_size'', JStr (classifyNetworkSize ip)),
           (js ''routing_status'', JStr (js ''Global internet routing'')),
           (js ''special_notes'', JArr (map JStr (getSpecialNotes ip ipData)))]"

definition step9 :: "geo \<Rightarrow> jsval" where
  "step9 ipData =
     JObj [(js ''distance_from_equator'', JStr (calculateDistanceFromEquator (lat ipData))),
           (js ''hemisphere'', JStr (getHemisphere (lat ipData))),
           (js ''famous_landmarks'', getFamousLandmarks (country ipData) (city ipData)),
           (js ''climate_zone'', JStr (getClimateZone (lat ipData)))]"

definition step10 :: "env \<Rightarrow> geo \<Rightarrow> jsval" where
  "step10 e ipData =
     JArr [JStr ([0xD83D, 0xDCCD] @ js '' Located in '' @ tmpl_str (city ipData) @ js '', '' @
                 tmpl_str (country ipData) @ js '' '' @
                   getCountryFlag (of_str (countryCode ipData))),
           JStr ([0xD83C, 0xDF10] @ js '' ISP: '' @ str_or (isp ipData) (js ''Unknown'')),
           JStr ([0xD83D, 0xDD52] @ js '' Timezone: '' @ tmpl_str (timezone ipData)),
           JStr ([0xD83C, 0xDFE2] @ js '' Organization: '' @
             str_or (org ipData) (js ''Not specified'')),
           JStr ([0xD83D, 0xDCE1] @ js '' Network: '' @
             str_or (as_field ipData) (js ''Unknown'')),
           JStr ([0xD83D, 0xDCA1] @ js '' IP addresses route internet traffic globally!''),
           JStr ([0xD83D, 0xDD12] @ js '' Always protect your IP address for security''),
           JStr ([0xD83C, 0xDF0D] @ js '' This IP is in the '' @ getHemisphere (lat ipData) @
             js '' hemisphere''),
           getRandomFunFact e ipData]"

definition steps :: "env \<Rightarrow> jstr \<Rightarrow> jstr \<Rightarrow> geo \<Rightarrow> jsval" where
  "steps e current_time ip ipData =
     JObj [(section1_key, step1 ip ipData),
           (section2_key, step2 e ipData),
           (section3_key, step3 current_time ipData),
           (section4_key, step4 ip),
           (section5_key, step5 ipData),
           (section6_key, step6 ip ipData),
           (section7_key, step7 ipData),
           (section8_key, step8 ip ipData),
           (section9_key, step9 ipData),
           (section10_key, step10 e ipData)]"

definition summary :: "env \<Rightarrow> jstr \<Rightarrow> geo \<Rightarrow> jsval" where
  "summary e ip ipData =
     JObj [(js ''location'',
              JStr (str_or (city ipData) (js ''Unknown'') @ js '', '' @
                    str_or (country ipData) (js ''Unknown'') @ js '' '' @
                    getCountryFlag (of_str (countryCode ipData)))),
           (js ''isp'', js_or (of_str (isp ipData)) (JStr (js ''Unknown''))),
           (js ''coordinates'',
              JStr (tmpl_num e (lat ipData) @ js '', '' @ tmpl_num e (lon ipData))),
           (js ''timezone'', of_str (timezone ipData)),
           (js ''security_level'', JStr (assessRisk ip)),
           (js ''status'', JStr ([0x2705] @ js '' Analysis complete - 10 steps detailed''))]"

definition quick_links :: "env \<Rightarrow> jstr \<Rightarrow> geo \<Rightarrow> jsval" where
  "quick_links e ip ipData =
     JObj [(js ''view_on_map'', JStr (map_url e ipData)),
           (js ''whois_lookup'', JStr (js ''https://whois.domaintools.com/'' @ ip)),
           (js ''speed_test'', JStr (js ''https://speedtest.net''))]"

text \<open>
  The object \<open>completeInfo\<close>. Its members are evaluated in order; the one evaluation
  that can throw is \<open>toLocaleString\<close> of the third section, and every other member is
  a pure function of the address, the record and the environment.
\<close>

definition completeInfo :: "env \<Rightarrow> jstr \<Rightarrow> geo \<Rightarrow> js_error + jsval" where
  "completeInfo e ip ipData =
     (case toLocaleString e (timezone ipData) of
        Inl err \<Rightarrow> Inl err
      | Inr current_time \<Rightarrow>
          Inr (JObj [(js ''success'', JBool True),
                     (js ''message'',
              JStr ([0xD83C, 0xDF89] @ js '' IP information retrieved successfully!'')),
                     (js ''requested_ip'', JStr ip),
                     (js ''timestamp'', JStr (toISOString e)),
                     (js ''api_version'', JStr (js ''1.0'')),
                     (js ''steps'', steps e current_time ip ipData),
                     (js ''summary'', summary e ip ipData),
                     (js ''quick_links'', quick_links e ip ipData)]))"

section \<open>The handler\<close>

definition cors_headers :: "(jstr \<times> jstr) list" where
  "cors_headers =
     [(js ''Access-Control-Allow-Origin'', js ''*''),
      (js ''Access-Control-Allow-Methods'', js ''GET, OPTIONS''),
      (js ''Access-Control-Allow-Headers'', js ''Content-Type'')]"

definition respond :: "nat \<Rightarrow> jsval option \<Rightarrow> response" where
  "respond code b = \<lparr>headers = cors_headers, status_code = code, body = b\<rparr>"

text \<open>
  The address the handler works on: the query parameter when it is truthy, else the
  first header that is, else the default, cut at the first comma, trimmed, and with the
  first \<open>::ffff:\<close> removed. \<open>split\<close> never returns an empty array, so its element
  \<open>0\<close> is there.
\<close>

definition resolve_ip :: "request \<Rightarrow> jstr" where
  "resolve_ip req =
     (case truthy_str (query_ip req) of
        Some ip \<Rightarrow> ip
      | None \<Rightarrow>
          (let ip = str_or (x_forwarded_for req) (str_or (x_real_ip req) (js ''8.8.8.8''));
               ip = trim (hd (split_char 44 ip));
               ip = replace_first (js ''::ffff:'') [] ip
           in ip))"

definition invalid_format_body :: jsval where
  "invalid_format_body =
     JObj [(js ''error'', JStr ([0x274C] @ js '' Invalid IP address format'')),
           (js ''tip'', JStr (js ''Please provide a valid IPv4 address like 8.8.8.8'')),
           (js ''example'', JStr (js ''https://your-api.vercel.app/api/ipinfo?ip=8.8.8.8''))]"

definition upstream_rejection_body :: "geo \<Rightarrow> jsval" where
  "upstream_rejection_body ipData =
     JObj [(js ''error'', JStr ([0x274C] @ js '' Failed to fetch IP information'')),
           (js ''message'', js_or (of_str (message ipData)) (JStr (js ''Unknown error'')))]"

definition failure_body :: "js_error \<Rightarrow> jsval" where
  "failure_body err =
     JObj [(js ''error'', JStr ([0xD83D, 0xDEA8] @ js '' Failed to fetch IP information'')),
           (js ''message'', JStr (error_message err)),
           (js ''tip'', JStr (js ''Please check the IP address and try again'')),
           (js ''support'', JStr (js ''Use format: ?ip=8.8.8.8 or no parameter for your IP''))]"

text \<open>
  The body of the \<open>try\<close> block: \<open>Inl\<close> is an exception that reaches the \<open>catch\<close>,
  \<open>Inr\<close> the response the block sends. The diagnostic lines written to the console
  are not part of the model.
\<close>

definition try_block :: "env \<Rightarrow> request \<Rightarrow> js_error + response" where
  "try_block e req =
     (let ip = resolve_ip req
      in if \<not> regex_test ipRegex ip then Inr (respond 400 (Some invalid_format_body))
         else (case axios_get e (js ''http://ip-api.com/json/'' @ ip) of
                 Inl err \<Rightarrow> Inl err
               | Inr d \<Rightarrow>
                   (case read_fields e d of
                      Inl err \<Rightarrow> Inl err
                    | Inr ipData \<Rightarrow>
                        if status ipData \<noteq> Some (js ''success'')
                        then Inr (respond 400 (Some (upstream_rejection_body ipData)))
                        else (case completeInfo e ip ipData of
                                Inl err \<Rightarrow> Inl err
                              | Inr info \<Rightarrow> Inr (respond 200 (Some info))))))"

definition handler :: "env \<Rightarrow> request \<Rightarrow> response" where
  "handler e req =
     (if req_method req = js ''OPTIONS'' then respond 200 None
      else if req_method req \<noteq> js ''GET''
      then respond 405
             (Some (JObj [(js ''error'', JStr ([0x274C] @ js '' Method not allowed'')),
                          (js ''message'', JStr (js ''Only GET requests are supported''))]))
      else (case try_block e req of
              Inl err \<Rightarrow> respond 500 (Some (failure_body err))
            | Inr res \<Rightarrow> res))"

text \<open>Reading a member of an object value, as a client of the response does.\<close>

definition member :: "jsval \<Rightarrow> jstr \<Rightarrow> jsval option" where
  "member v key = (case v of JObj ms \<Rightarrow> map_of ms key | _ \<Rightarrow> None)"

definition keys :: "jsval \<Rightarrow> jstr list" where
  "keys v = (case v of JObj ms \<Rightarrow> map fst ms | _ \<Rightarrow> [])"

fun member_path :: "jsval \<Rightarrow> jstr list \<Rightarrow> jsval option" where
  "member_path v [] = Some v"
| "member_path v (k # ks) = (case member v k of None \<Rightarrow> None | Some w \<Rightarrow> member_path w ks)"

section \<open>Example inputs\<close>

text \<open>
  A success record for \<open>8.8.8.8\<close> with the fields the upstream service sends when it
  is asked for no particular ones (\<open>offset\<close>, \<open>dst\<close> and \<open>reverse\<close> are not among
  them), a rejection record, and a success record with a time zone the clock does not
  know. The environment of the examples answers three addresses with these, one with
  a body that is no JSON, one with the body \<open>null\<close>, and rejects every other call.
\<close>

definition example_geo :: geo where
  "example_geo =
     \<lparr>status = Some (js ''success''), message = None,
      country = Some (js ''United States''), countryCode = Some (js ''US''),
      regionName = Some (js ''Virginia''), city = Some (js ''Ashburn''),
      zip_field = Some (js ''20149''), lat = Some 39.03, lon = Some (- 77.5),
      timezone = Some (js ''America/New_York''), offset = None, dst = None,
      as_field = Some (js ''AS15169 Google LLC''), org = Some (js ''Google Public DNS''),
      isp = Some (js ''Google LLC''), reverse = None\<rparr>"

definition example_fail :: geo where
  "example_fail =
     \<lparr>status = Some (js ''fail''), message = Some (js ''private range''),
      country = None, countryCode = None, regionName = None, city = None,
      zip_field = None, lat = None, lon = None, timezone = None, offset = None,
      dst = None, as_field = None, org = None, isp = None, reverse = None\<rparr>"

definition example_odd_zone :: geo where
  "example_odd_zone = example_geo\<lparr>timezone := Some (js ''Mars/Olympus'')\<rparr>"

definition example_env :: env where
  "example_env =
     \<lparr>axios_get =
        (\<lambda>url. if url = js ''http://ip-api.com/json/8.8.8.8''
               then Inr (ObjectData example_geo)
               else if url = js ''http://ip-api.com/json/10.0.0.1''
               then Inr (ObjectData example_geo)
               else if url = js ''http://ip-api.com/json/192.168.1.1''
               then Inr (ObjectData example_fail)
               else if url = js ''http://ip-api.com/json/1.1.1.1''
               then Inr (ObjectData example_odd_zone)
               else if url = js ''http://ip-api.com/json/4.4.4.4''
               then Inr (TextData (js ''Too many requests, slow down''))
               else if url = js ''http://ip-api.com/json/5.5.5.5''
               then Inr NullData
               else Inl (JsError (js ''Network Error''))),
      null_read_message =
        js ''Cannot read properties of null (reading '' @ [39] @ js ''status'' @ [39] @
        js '')'',
      toISOString = js ''2024-01-01T00:00:00.000Z'',
      toLocaleString =
        (\<lambda>tz. if tz = Some (js ''Mars/Olympus'')
              then Inl (JsError (js ''Invalid time zone specified: Mars/Olympus''))
              else Inr (js ''12/31/2023, 7:00:00 PM'')),
      number_to_string =
        (\<lambda>x. if x = 39.03 then js ''39.03'' else if x = - 77.5 then js ''-77.5''
             else js ''0''),
      random = 0\<rparr>"

definition get_request :: "jstr \<Rightarrow> request" where
  "get_request ip =
     \<lparr>req_method = js ''GET'', query_ip = Some ip, x_forwarded_for = None,
      x_real_ip = None\<rparr>"

section \<open>Properties\<close>

lemma js_Nil: "js [] = []"
  by (simp add: js_def)

lemma js_Cons: "js (c # cs) = of_char c # js cs"
  by (simp add: js_def)

lemmas js_simps = js_Nil js_Cons

lemma hemisphere_labels_distinct:
  "hemisphere_unknown \<noteq> hemisphere_northern"
  "hemisphere_unknown \<noteq> hemisphere_southern"
  "hemisphere_northern \<noteq> hemisphere_southern"
  by (simp_all add: hemisphere_unknown_def hemisphere_northern_def hemisphere_southern_def
      js_simps)

lemma getHemisphere_nonzero:
  "x \<noteq> 0 \<Longrightarrow>
     getHemisphere (Some x) = (if x < 0 then hemisphere_southern else hemisphere_northern)"
  by (simp add: getHemisphere_def truthy_num_def)

text \<open>
  C1. The specification has \<open>getHemisphere(0)\<close> report the northern label. In the code
  the guard \<open>!lat\<close> is met by the number zero, so the latitude of the equator gets the
  label \<open>Unknown\<close> and the \<open>=\<close> of \<open>lat >= 0\<close> is never reached.
\<close>

theorem getHemisphere_zero_unknown:
  "getHemisphere (Some 0) = hemisphere_unknown \<and>
   getHemisphere (Some 0) \<noteq> hemisphere_northern"
  by (simp add: getHemisphere_def truthy_num_def hemisphere_unknown_def hemisphere_northern_def
      js_simps)

subsection \<open>The matcher decides the language of the expression\<close>

lemma set_rx_iter:
  assumes "\<And>s. set (f s) = {t. \<exists>u\<in>L. s = u @ t}"
  shows "set (rx_iter f k s) = {t. \<exists>u\<in>lang_pow L k. s = u @ t}"
proof (induction k arbitrary: s)
  case 0
  show ?case by auto
next
  case (Suc k)
  show ?case
    by (auto simp: Suc assms) metis+
qed

lemma set_rmatch: "set (rmatch r s) = {t. \<exists>u\<in>lang r. s = u @ t}"
proof (induction r arbitrary: s)
  case (Lit c)
  show ?case by (auto split: list.splits)
next
  case (Range lo hi)
  show ?case by (auto split: list.splits)
next
  case (Seq a b)
  show ?case
    by (auto simp: Seq) metis+
next
  case (Rep m n r)
  have "\<And>k s. set (rx_iter (rmatch r) k s) = {t. \<exists>u\<in>lang_pow (lang r) k. s = u @ t}"
    by (rule set_rx_iter) (rule Rep)
  then show ?case by (auto simp: Bex_def less_Suc_eq_le simp del: upt_Suc)
qed

lemma regex_test_lang: "regex_test r s \<longleftrightarrow> s \<in> lang r"
  by (simp add: regex_test_def set_rmatch)

lemma lang_digit: "lang (Range 48 57) = {[x] | x. is_digit x}"
  by (simp add: is_digit_def)

lemma lang_pow_digits:
  "lang_pow {[x] | x. is_digit x} k = {g. length g = k \<and> list_all is_digit g}"
proof (induction k)
  case 0
  show ?case by auto
next
  case (Suc k)
  have "lang_pow {[x] | x. is_digit x} (Suc k) =
        {x # v | x v. is_digit x \<and> v \<in> lang_pow {[x] | x. is_digit x} k}"
    by auto (metis append_Cons append_Nil)
  also have "\<dots> = {x # v | x v. is_digit x \<and> length v = k \<and> list_all is_digit v}"
    unfolding Suc by simp
  also have "\<dots> = {g. length g = Suc k \<and> list_all is_digit g}"
    by (auto simp: length_Suc_conv)
  finally show ?case .
qed

lemma lang_digit_group: "lang (Rep 1 3 (Range 48 57)) = {g. digit_group g}"
proof -
  have "lang (Rep 1 3 (Range 48 57)) = (\<Union>k\<in>{1..3}. {g. length g = k \<and> list_all is_digit g})"
    unfolding lang.simps(4) lang_digit lang_pow_digits by simp
  also have "\<dots> = {g. digit_group g}"
    by (auto simp: digit_group_def)
  finally show ?thesis .
qed

lemma lang_pow_3: "lang_pow L 3 = {u @ v @ w | u v w. u \<in> L \<and> v \<in> L \<and> w \<in> L}"
  by (auto simp: eval_nat_numeral)

lemma lang_ipRegex: "lang ipRegex = {s. dotted_quad s}"
proof -
  let ?G = "{g @ [46] | g. digit_group g}"
  have G: "lang (Seq (Rep 1 3 (Range 48 57)) (Lit 46)) = ?G"
    unfolding lang.simps(3) lang_digit_group by auto
  have L: "lang ipRegex = {p @ d | p d. p \<in> lang_pow ?G 3 \<and> digit_group d}"
    unfolding ipRegex_def lang.simps(3) lang_digit_group
    unfolding lang.simps(4) G by auto
  show ?thesis
  proof (rule set_eqI)
    fix s
    show "s \<in> lang ipRegex \<longleftrightarrow> s \<in> {s. dotted_quad s}"
    proof
      assume "s \<in> lang ipRegex"
      then obtain a b c d where "digit_group a" "digit_group b" "digit_group c" "digit_group d"
        and "s = ((a @ [46]) @ (b @ [46]) @ (c @ [46])) @ d"
        unfolding L lang_pow_3 by blast
      then show "s \<in> {s. dotted_quad s}"
        unfolding dotted_quad_def by auto
    next
      assume "s \<in> {s. dotted_quad s}"
      then obtain a b c d where g: "digit_group a" "digit_group b" "digit_group c" "digit_group d"
        and s: "s = a @ [46] @ b @ [46] @ c @ [46] @ d"
        unfolding dotted_quad_def by blast
      have "(a @ [46]) @ (b @ [46]) @ (c @ [46]) \<in> lang_pow ?G 3"
        unfolding lang_pow_3 using g by blast
      moreover have "s = ((a @ [46]) @ (b @ [46]) @ (c @ [46])) @ d"
        using s by simp
      ultimately show "s \<in> lang ipRegex"
        unfolding L using g(4) by blast
    qed
  qed
qed

lemma ipRegex_dotted_quad: "regex_test ipRegex s \<longleftrightarrow> dotted_quad s"
  by (simp add: regex_test_lang lang_ipRegex)


subsection \<open>Splitting and converting the groups of a dotted quad\<close>

lemma split_char_not_Nil: "split_char c s \<noteq> []"
  by (induction s) (auto split: list.splits)

lemma split_char_no_sep: "c \<notin> set g \<Longrightarrow> split_char c g = [g]"
  by (induction g) auto

lemma split_char_append:
  "c \<notin> set g \<Longrightarrow> split_char c (g @ c # r) = g # split_char c r"
  by (induction g) auto

lemma digit_group_no_dot: "digit_group g \<Longrightarrow> 46 \<notin> set g"
  by (auto simp: digit_group_def list_all_iff is_digit_def)

lemma split_dotted_quad:
  assumes "digit_group a" "digit_group b" "digit_group c" "digit_group d"
  shows "split_char 46 (a @ [46] @ b @ [46] @ c @ [46] @ d) = [a, b, c, d]"
  using assms by (simp add: split_char_append split_char_no_sep digit_group_no_dot)

lemma digit_not_white_space: "is_digit c \<Longrightarrow> \<not> is_white_space c"
  by (auto simp: is_digit_def is_white_space_def)

lemma dropWhile_digits: "list_all is_digit g \<Longrightarrow> dropWhile is_white_space g = g"
  by (cases g) (auto simp: digit_not_white_space)

lemma trim_digits: "list_all is_digit g \<Longrightarrow> trim g = g"
proof -
  assume g: "list_all is_digit g"
  then have "list_all is_digit (rev g)" by (simp add: list_all_iff)
  then show ?thesis
    using g by (simp add: trim_def dropWhile_digits)
qed

lemma to_Number_digit_group:
  "digit_group g \<Longrightarrow> to_Number g = Num (int (radix_value 10 g))"
  by (auto simp: to_Number_def digit_group_def trim_digits)

lemma takeWhile_digits: "list_all is_digit g \<Longrightarrow> takeWhile is_digit g = g"
  by (simp add: list_all_iff)

lemma parseInt_digit_group:
  assumes "digit_group g"
  shows "parseInt g = Num (int (radix_value 10 g))"
proof -
  from assms obtain x xs where g: "g = x # xs" and d: "is_digit x" "list_all is_digit xs"
    by (cases g) (auto simp: digit_group_def)
  have all: "list_all is_digit g" using g d by simp
  have ne: "g \<noteq> []" using g by simp
  have s1: "dropWhile is_white_space g = g" by (rule dropWhile_digits [OF all])
  have neg: "(case g of [] \<Rightarrow> False | x # _ \<Rightarrow> x = 45) = False"
    using g d by (auto simp: is_digit_def)
  have s2: "(case g of [] \<Rightarrow> g | x # xs \<Rightarrow> if x = 43 \<or> x = 45 then xs else g) = g"
    using g d by (auto simp: is_digit_def)
  have nohex: "(take 2 g = [48, 120] \<or> take 2 g = [48, 88]) = False"
    using g d by (cases xs) (auto simp: is_digit_def)
  show ?thesis
    unfolding parseInt_def Let_def s1 s2 neg nohex
    using ne by (simp add: takeWhile_digits [OF all])
qed

lemma radix_value_snoc: "radix_value r (ds @ [c]) = r * radix_value r ds + digit_value c"
  by (simp add: radix_value_def)

lemma radix_value_bound:
  "list_all is_digit g \<Longrightarrow> radix_value 10 g < 10 ^ length g"
proof (induction g rule: rev_induct)
  case Nil
  show ?case by (simp add: radix_value_def)
next
  case (snoc c g)
  then have "radix_value 10 g < 10 ^ length g" and "digit_value c \<le> 9"
    by (auto simp: digit_value_def is_digit_def)
  then show ?case by (simp add: radix_value_snoc)
qed

lemma digit_group_bound: "digit_group g \<Longrightarrow> radix_value 10 g \<le> 999"
proof -
  assume g: "digit_group g"
  then have "radix_value 10 g < 10 ^ length g"
    by (simp add: digit_group_def radix_value_bound)
  also have "(10::nat) ^ length g \<le> 10 ^ 3"
    using g by (intro power_increasing) (auto simp: digit_group_def)
  finally show ?thesis by simp
qed

lemma firstOctet_dotted_quad:
  assumes "digit_group a" "digit_group b" "digit_group c" "digit_group d"
  shows "firstOctet (a @ [46] @ b @ [46] @ c @ [46] @ d) = Num (int (radix_value 10 a))"
  unfolding firstOctet_def split_dotted_quad [OF assms]
  by (simp add: nth_opt_def parseInt_digit_group assms)

lemma parts_of_dotted_quad:
  assumes "digit_group a" "digit_group b" "digit_group c" "digit_group d"
  shows "parts_of (a @ [46] @ b @ [46] @ c @ [46] @ d) =
         [Num (int (radix_value 10 a)), Num (int (radix_value 10 b)),
          Num (int (radix_value 10 c)), Num (int (radix_value 10 d))]"
  unfolding parts_of_def split_dotted_quad [OF assms]
  by (simp add: to_Number_digit_group assms)

subsection \<open>Address classes\<close>

lemma class_labels_distinct: "distinct [class_a, class_b, class_c, class_d, class_e]"
  by (simp add: class_a_def class_b_def class_c_def class_d_def class_e_def js_simps)

text \<open>
  C5. For a dotted quad \<open>a.b.c.d\<close>, \<open>getIPType\<close> depends on the decimal value of the
  first group alone: at most 127 is class A, at most 191 class B, at most 223 class C,
  at most 239 class D, and anything larger class E.
\<close>

theorem getIPType_by_first_octet:
  assumes "digit_group a" "digit_group b" "digit_group c" "digit_group d"
  shows "getIPType (a @ [46] @ b @ [46] @ c @ [46] @ d) =
           (if radix_value 10 a \<le> 127 then class_a
            else if radix_value 10 a \<le> 191 then class_b
            else if radix_value 10 a \<le> 223 then class_c
            else if radix_value 10 a \<le> 239 then class_d
            else class_e)"
  unfolding getIPType_def firstOctet_dotted_quad [OF assms]
  by (simp add: rel_le_def)

theorem getIPType_by_first_octet_witness:
  "digit_group (js ''192'') \<and> digit_group (js ''168'') \<and> digit_group (js ''1'') \<and>
   getIPType (js ''192.168.1.1'') = class_c"
proof -
  have g: "digit_group (js ''192'')" "digit_group (js ''168'')" "digit_group (js ''1'')"
    by (simp_all add: digit_group_def is_digit_def js_simps)
  have v: "radix_value 10 (js ''192'') = 192"
    by (simp add: radix_value_def digit_value_def is_digit_def js_simps)
  have e:
    "(js ''192.168.1.1'') = js ''192'' @ [46] @ js ''168'' @ [46] @ js ''1'' @ [46] @ js ''1''"
    by (simp add: js_simps)
  have "getIPType (js ''192.168.1.1'') = class_c"
    unfolding e using getIPType_by_first_octet [OF g(1) g(2) g(3) g(3)] by (simp add: v)
  then show ?thesis using g by simp
qed

subsection \<open>Private, reserved and bogon addresses\<close>

lemma risk_labels_distinct:
  "distinct [risk_private, risk_reserved, risk_bogon, risk_public]"
  by (simp add: risk_private_def risk_reserved_def risk_bogon_def risk_public_def js_simps)

lemma bogon_not_private: "isBogonIP ip \<Longrightarrow> \<not> isPrivateIP ip"
  by (auto simp: isBogonIP_def isPrivateIP_def strict_eq_def Let_def)

lemma bogon_not_reserved: "isBogonIP ip \<Longrightarrow> \<not> isReservedIP ip"
  by (auto simp: isBogonIP_def isReservedIP_def strict_eq_def rel_ge_def Let_def)

lemma parts_of_loopback: "parts_of (js ''127.0.0.1'') = [Num 127, Num 0, Num 0, Num 1]"
  by (simp add: parts_of_def to_Number_def trim_def is_white_space_def is_digit_def
      radix_value_def digit_value_def js_simps)

lemma parts_of_link_local: "parts_of (js ''169.254.1.1'') = [Num 169, Num 254, Num 1, Num 1]"
  by (simp add: parts_of_def to_Number_def trim_def is_white_space_def is_digit_def
      radix_value_def digit_value_def js_simps)

lemma parts_of_ten: "parts_of (js ''10.0.0.1'') = [Num 10, Num 0, Num 0, Num 1]"
  by (simp add: parts_of_def to_Number_def trim_def is_white_space_def is_digit_def
      radix_value_def digit_value_def js_simps)

lemma parts_of_google: "parts_of (js ''8.8.8.8'') = [Num 8, Num 8, Num 8, Num 8]"
  by (simp add: parts_of_def to_Number_def trim_def is_white_space_def is_digit_def
      radix_value_def digit_value_def js_simps)

lemma parts_of_multicast: "parts_of (js ''224.0.0.1'') = [Num 224, Num 0, Num 0, Num 1]"
  by (simp add: parts_of_def to_Number_def trim_def is_white_space_def is_digit_def
      radix_value_def digit_value_def js_simps)

lemmas classify_defs =
  isPrivateIP_def isReservedIP_def isBogonIP_def strict_eq_def rel_ge_def rel_le_def
  nth_opt_def Let_def

text \<open>
  C4. \<open>assessRisk\<close> returns one of four distinct labels, and the predicates are tried
  in the order private, reserved, bogon: a private address gets the private label
  whatever the other two predicates say, and so on down to the public label.
\<close>

theorem assessRisk_precedence:
  "(isPrivateIP ip \<longrightarrow> assessRisk ip = risk_private) \<and>
   (\<not> isPrivateIP ip \<and> isReservedIP ip \<longrightarrow> assessRisk ip = risk_reserved) \<and>
   (\<not> isPrivateIP ip \<and> \<not> isReservedIP ip \<and> isBogonIP ip \<longrightarrow> assessRisk ip = risk_bogon) \<and>
   (\<not> isPrivateIP ip \<and> \<not> isReservedIP ip \<and> \<not> isBogonIP ip \<longrightarrow> assessRisk ip = risk_public) \<and>
   assessRisk ip \<in> {risk_private, risk_reserved, risk_bogon, risk_public} \<and>
   distinct [risk_private, risk_reserved, risk_bogon, risk_public]"
  using risk_labels_distinct by (simp add: assessRisk_def)

theorem assessRisk_precedence_witness:
  "isPrivateIP (js ''10.0.0.1'') \<and> assessRisk (js ''10.0.0.1'') = risk_private \<and>
   \<not> isPrivateIP (js ''224.0.0.1'') \<and> isReservedIP (js ''224.0.0.1'') \<and>
   assessRisk (js ''224.0.0.1'') = risk_reserved \<and>
   \<not> isReservedIP (js ''127.0.0.1'') \<and> isBogonIP (js ''127.0.0.1'') \<and>
   assessRisk (js ''127.0.0.1'') = risk_bogon \<and>
   \<not> isBogonIP (js ''8.8.8.8'') \<and> assessRisk (js ''8.8.8.8'') = risk_public"
proof -
  have a: "isPrivateIP (js ''10.0.0.1'')"
    by (simp add: classify_defs parts_of_ten)
  have b: "\<not> isPrivateIP (js ''224.0.0.1'')" "isReservedIP (js ''224.0.0.1'')"
    by (simp_all add: classify_defs parts_of_multicast)
  have c: "\<not> isPrivateIP (js ''127.0.0.1'')" "\<not> isReservedIP (js ''127.0.0.1'')"
    "isBogonIP (js ''127.0.0.1'')"
    by (simp_all add: classify_defs parts_of_loopback)
  have d: "\<not> isPrivateIP (js ''8.8.8.8'')" "\<not> isReservedIP (js ''8.8.8.8'')"
    "\<not> isBogonIP (js ''8.8.8.8'')"
    by (simp_all add: classify_defs parts_of_google)
  show ?thesis
    using a b c d
      assessRisk_precedence [of "(js ''10.0.0.1'')"]
      assessRisk_precedence [of "(js ''224.0.0.1'')"]
      assessRisk_precedence [of "(js ''127.0.0.1'')"]
      assessRisk_precedence [of "(js ''8.8.8.8'')"]
    by simp
qed

lemma recommendations_distinct:
  "distinct [recommend_private, recommend_reserved, recommend_public]"
  by (simp add: recommend_private_def recommend_reserved_def recommend_public_def js_simps)

text \<open>
  C9. \<open>getSecurityRecommendations\<close> distinguishes the private and the reserved
  addresses, each with a list of its own, and nothing else: every other address gets
  the list of three public recommendations. So a bogon address (which is never private
  or reserved) gets that list, the same as an ordinary public address; there is no
  recommendation of its own for it. The three lists differ from one another.
\<close>

theorem recommendations_of_bogon:
  "(isPrivateIP ip \<longrightarrow> getSecurityRecommendations ip = recommend_private) \<and>
   (\<not> isPrivateIP ip \<and> isReservedIP ip \<longrightarrow>
      getSecurityRecommendations ip = recommend_reserved) \<and>
   (\<not> isPrivateIP ip \<and> \<not> isReservedIP ip \<longrightarrow>
      getSecurityRecommendations ip = recommend_public) \<and>
   (isBogonIP ip \<longrightarrow>
      \<not> isPrivateIP ip \<and> \<not> isReservedIP ip \<and>
      getSecurityRecommendations ip = recommend_public \<and>
      length (getSecurityRecommendations ip) = 3 \<and>
      (\<forall>ip'. \<not> isPrivateIP ip' \<and> \<not> isReservedIP ip' \<and> \<not> isBogonIP ip' \<longrightarrow>
         getSecurityRecommendations ip' = getSecurityRecommendations ip)) \<and>
   distinct [recommend_private, recommend_reserved, recommend_public] \<and>
   length recommend_public = 3"
proof -
  have bogon: "\<not> isPrivateIP ip \<and> \<not> isReservedIP ip" if "isBogonIP ip"
    using that bogon_not_private bogon_not_reserved by blast
  have len: "length recommend_public = 3"
    by (simp add: recommend_public_def)
  show ?thesis
    using bogon len recommendations_distinct
    by (auto simp: getSecurityRecommendations_def)
qed

theorem recommendations_of_bogon_witness:
  "isBogonIP (js ''127.0.0.1'') \<and> isBogonIP (js ''169.254.1.1'') \<and>
   getSecurityRecommendations (js ''127.0.0.1'') = recommend_public \<and>
   getSecurityRecommendations (js ''169.254.1.1'') = recommend_public \<and>
   getSecurityRecommendations (js ''8.8.8.8'') = getSecurityRecommendations (js ''127.0.0.1'') \<and>
   isPrivateIP (js ''10.0.0.1'') \<and>
   getSecurityRecommendations (js ''10.0.0.1'') = recommend_private \<and>
   isReservedIP (js ''224.0.0.1'') \<and>
   getSecurityRecommendations (js ''224.0.0.1'') = recommend_reserved \<and>
   recommend_private \<noteq> recommend_public \<and> recommend_reserved \<noteq> recommend_public"
proof -
  have a: "isBogonIP (js ''127.0.0.1'')"
    by (simp add: classify_defs parts_of_loopback)
  have b: "isBogonIP (js ''169.254.1.1'')"
    by (simp add: classify_defs parts_of_link_local)
  have d: "\<not> isPrivateIP (js ''8.8.8.8'')" "\<not> isReservedIP (js ''8.8.8.8'')"
    "\<not> isBogonIP (js ''8.8.8.8'')"
    by (simp_all add: classify_defs parts_of_google)
  have p: "isPrivateIP (js ''10.0.0.1'')"
    by (simp add: classify_defs parts_of_ten)
  have r: "\<not> isPrivateIP (js ''224.0.0.1'')" "isReservedIP (js ''224.0.0.1'')"
    by (simp_all add: classify_defs parts_of_multicast)
  show ?thesis
    using a b d p r
      recommendations_of_bogon [of "(js ''127.0.0.1'')"]
      recommendations_of_bogon [of "(js ''169.254.1.1'')"]
      recommendations_of_bogon [of "(js ''10.0.0.1'')"]
      recommendations_of_bogon [of "(js ''224.0.0.1'')"]
    by auto
qed

text \<open>
  C10. On a string the validator accepts, the octet classifiers read only what is
  there: the split has exactly four groups, so the elements \<open>0\<close> and \<open>1\<close> exist;
  \<open>Number\<close> of every group and \<open>parseInt\<close> of the first are numbers from 0 to 999,
  never \<open>NaN\<close>.
\<close>

theorem classifiers_defined_on_validated:
  assumes "regex_test ipRegex ip"
  shows "length (split_char 46 ip) = 4 \<and>
         length (parts_of ip) = 4 \<and>
         list_all (\<lambda>v. \<exists>n. v = Num n \<and> 0 \<le> n \<and> n \<le> 999) (parts_of ip) \<and>
         (\<exists>n. firstOctet ip = Num n \<and> 0 \<le> n \<and> n \<le> 999) \<and>
         nth_opt (split_char 46 ip) 0 \<noteq> None \<and>
         nth_opt (parts_of ip) 0 \<noteq> None \<and> nth_opt (parts_of ip) 0 \<noteq> Some NaN \<and>
         nth_opt (parts_of ip) 1 \<noteq> None \<and> nth_opt (parts_of ip) 1 \<noteq> Some NaN"
proof -
  from assms obtain a b c d
    where g: "digit_group a" "digit_group b" "digit_group c" "digit_group d"
      and ip: "ip = a @ [46] @ b @ [46] @ c @ [46] @ d"
    unfolding ipRegex_dotted_quad dotted_quad_def by blast
  have bound: "int (radix_value 10 a) \<le> 999" "int (radix_value 10 b) \<le> 999"
    "int (radix_value 10 c) \<le> 999" "int (radix_value 10 d) \<le> 999"
    using g digit_group_bound by force+
  show ?thesis
    unfolding ip split_dotted_quad [OF g] parts_of_dotted_quad [OF g]
      firstOctet_dotted_quad [OF g]
    using bound by (simp add: nth_opt_def)
qed

theorem classifiers_defined_on_validated_witness:
  "regex_test ipRegex (js ''172.16.254.1'') \<and> length (split_char 46 (js ''172.16.254.1'')) = 4 \<and>
   nth_opt (parts_of (js ''172.16.254.1'')) 1 \<noteq> None \<and>
   nth_opt (parts_of (js ''172.16.254.1'')) 1 \<noteq> Some NaN"
proof -
  have v: "regex_test ipRegex (js ''172.16.254.1'')"
    by (simp add: regex_test_def ipRegex_def eval_nat_numeral js_simps)
  show ?thesis
    using v classifiers_defined_on_validated [OF v] by simp
qed

subsection \<open>The country flag\<close>

lemma toUpperCase_upper:
  "65 \<le> c1 \<Longrightarrow> c1 \<le> 90 \<Longrightarrow> 65 \<le> c2 \<Longrightarrow> c2 \<le> 90 \<Longrightarrow> toUpperCase [c1, c2] = [c1, c2]"
  by (simp add: toUpperCase_def)

lemma toUpperCase_bound:
  "list_all (\<lambda>c. c < 65536) s \<Longrightarrow> list_all (\<lambda>c. c < 65536) (toUpperCase s)"
  by (induction s) (auto simp: toUpperCase_def)

text \<open>
  On a string, whose code units are below \<open>2^16\<close>, the conversion cannot fail: the
  \<open>catch\<close> of \<open>getCountryFlag\<close> is not reached.
\<close>

lemma fromCodePoint_of_string:
  assumes "list_all (\<lambda>c. c < 65536) s"
  shows "fromCodePoint (map (\<lambda>char. 127397 + char) (toUpperCase s)) \<noteq> None"
proof -
  have "list_all (\<lambda>c. c < 65536) (toUpperCase s)"
    by (rule toUpperCase_bound [OF assms])
  then have "list_all (\<lambda>cp. cp \<le> 0x10FFFF) (map (\<lambda>char. 127397 + char) (toUpperCase s))"
    by (induction "toUpperCase s" arbitrary: s) (auto simp: list_all_iff)
  then show ?thesis by (simp add: fromCodePoint_def)
qed

text \<open>
  C6. For a code of two capital letters, \<open>getCountryFlag\<close> is the UTF-16 encoding of
  the two code points offset by 127397, which lie in the block of the regional
  indicators (\<open>U+1F1E6\<close> to \<open>U+1F1FF\<close>), two code points in four code units; in
  particular \<open>US\<close> gives the regional indicators \<open>U\<close> and \<open>S\<close>. An absent or empty
  code gives the placeholder, and so does a conversion that fails: a truthy value that
  is not a string, or code points that \<open>String.fromCodePoint\<close> refuses.
\<close>

theorem getCountryFlag_regional_indicators:
  "(65 \<le> c1 \<and> c1 \<le> 90 \<and> 65 \<le> c2 \<and> c2 \<le> 90 \<longrightarrow>
      getCountryFlag (JStr [c1, c2]) =
        utf16_encode (127397 + c1) @ utf16_encode (127397 + c2) \<and>
      0x1F1E6 \<le> 127397 + c1 \<and> 127397 + c1 \<le> 0x1F1FF \<and>
      0x1F1E6 \<le> 127397 + c2 \<and> 127397 + c2 \<le> 0x1F1FF \<and>
      length (getCountryFlag (JStr [c1, c2])) = 4) \<and>
   getCountryFlag (JStr (js ''US'')) = [0xD83C, 0xDDFA, 0xD83C, 0xDDF8] \<and>
   getCountryFlag JUndefined = flag_placeholder \<and>
   getCountryFlag (JStr []) = flag_placeholder \<and>
   (truthy v \<and> (\<forall>s. v \<noteq> JStr s) \<longrightarrow> getCountryFlag v = flag_placeholder) \<and>
   (fromCodePoint (map (\<lambda>char. 127397 + char) (toUpperCase code)) = None \<longrightarrow>
      getCountryFlag (JStr code) = flag_placeholder)"
proof -
  have iso: "getCountryFlag (JStr [c1, c2]) =
               utf16_encode (127397 + c1) @ utf16_encode (127397 + c2) \<and>
             length (getCountryFlag (JStr [c1, c2])) = 4"
    if "65 \<le> c1" "c1 \<le> 90" "65 \<le> c2" "c2 \<le> 90"
    using that
    by (simp add: getCountryFlag_def toUpperCase_upper fromCodePoint_def utf16_encode_def)
  have block: "0x1F1E6 \<le> 127397 + c \<and> 127397 + c \<le> 0x1F1FF"
    if "65 \<le> c" "c \<le> 90" for c :: nat
    using that by simp
  have us: "getCountryFlag (JStr (js ''US'')) = [0xD83C, 0xDDFA, 0xD83C, 0xDDF8]"
    by (simp add: getCountryFlag_def toUpperCase_def fromCodePoint_def utf16_encode_def
        js_simps)
  have absent: "getCountryFlag JUndefined = flag_placeholder"
    "getCountryFlag (JStr []) = flag_placeholder"
    by (simp_all add: getCountryFlag_def)
  have other: "getCountryFlag v = flag_placeholder" if "truthy v" "\<forall>s. v \<noteq> JStr s"
    using that by (cases v) (simp_all add: getCountryFlag_def)
  have failing: "getCountryFlag (JStr code) = flag_placeholder"
    if "fromCodePoint (map (\<lambda>char. 127397 + char) (toUpperCase code)) = None"
    using that by (simp add: getCountryFlag_def)
  show ?thesis
    using iso block [of c1] block [of c2] us absent other failing by blast
qed

theorem getCountryFlag_regional_indicators_witness:
  "getCountryFlag (JStr [85, 83]) = utf16_encode 127482 @ utf16_encode 127480 \<and>
   utf16_encode 127482 @ utf16_encode 127480 = [0xD83C, 0xDDFA, 0xD83C, 0xDDF8] \<and>
   truthy (JNum 5) \<and> getCountryFlag (JNum 5) = flag_placeholder \<and>
   fromCodePoint (map (\<lambda>char. 127397 + char) (toUpperCase [1114111])) = None \<and>
   getCountryFlag (JStr [1114111]) = flag_placeholder"
proof -
  have f: "fromCodePoint (map (\<lambda>char. 127397 + char) (toUpperCase [1114111])) = None"
    by (simp add: fromCodePoint_def toUpperCase_def)
  show ?thesis
    using f getCountryFlag_regional_indicators [of 85 83 "JNum 5" "[1114111]"]
    by (simp add: utf16_encode_def)
qed

subsection \<open>The validator in the handler\<close>

lemma respond_eq: "respond c b = respond c' b' \<longleftrightarrow> c = c' \<and> b = b'"
  by (simp add: respond_def)

lemma GET_not_OPTIONS: "(js ''GET'') \<noteq> js ''OPTIONS''"
  by (simp add: js_simps)

text \<open>
  An \<open>OPTIONS\<close> request is answered with status 200 and no body, and a request with no
  \<open>ip\<close> parameter and neither header is about the default address.
\<close>

lemma handler_OPTIONS: "req_method req = (js ''OPTIONS'') \<Longrightarrow> handler e req = respond 200 None"
  by (simp add: handler_def)

lemma resolve_ip_default:
  "resolve_ip \<lparr>req_method = m, query_ip = None, x_forwarded_for = None, x_real_ip = None\<rparr> =
     js ''8.8.8.8''"
  by (simp add: resolve_ip_def truthy_str_def str_or_def trim_def is_white_space_def js_simps)

lemma handler_GET:
  "req_method req = (js ''GET'') \<Longrightarrow>
     handler e req =
       (case try_block e req of Inl err \<Rightarrow> respond 500 (Some (failure_body err)) | Inr res \<Rightarrow> res)"
  by (simp add: handler_def GET_not_OPTIONS)

lemma try_block_invalid:
  "\<not> regex_test ipRegex (resolve_ip req) \<Longrightarrow>
     try_block e req = Inr (respond 400 (Some invalid_format_body))"
  by (simp add: try_block_def Let_def)

lemma try_block_valid:
  "regex_test ipRegex (resolve_ip req) \<Longrightarrow>
     try_block e req =
       (case axios_get e (js ''http://ip-api.com/json/'' @ resolve_ip req) of
          Inl err \<Rightarrow> Inl err
        | Inr d \<Rightarrow>
            (case read_fields e d of
               Inl err \<Rightarrow> Inl err
             | Inr ipData \<Rightarrow>
                 if status ipData \<noteq> Some (js ''success'')
                 then Inr (respond 400 (Some (upstream_rejection_body ipData)))
                 else (case completeInfo e (resolve_ip req) ipData of
                         Inl err \<Rightarrow> Inl err
                       | Inr info \<Rightarrow> Inr (respond 200 (Some info)))))"
  by (simp add: try_block_def Let_def)

lemma read_fields_simps:
  "read_fields e (ObjectData ipData) = Inr ipData"
  "read_fields e (TextData t) = Inr no_fields"
  "read_fields e NullData = Inl (JsError (null_read_message e))"
  by (simp_all add: read_fields_def)

lemma rejection_not_invalid: "upstream_rejection_body ipData \<noteq> invalid_format_body"
  by (simp add: upstream_rejection_body_def invalid_format_body_def)

lemma keys_invalid_format_body:
  "keys invalid_format_body = [js ''error'', js ''tip'', js ''example'']"
  by (simp add: keys_def invalid_format_body_def)

lemma regex_accepts_999: "regex_test ipRegex (js ''999.999.999.999'')"
  by (simp add: regex_test_def ipRegex_def eval_nat_numeral js_simps)

text \<open>
  C2. The validator accepts exactly the dotted quads: four groups of one to three
  decimal digits separated by dots, whatever the value of a group, so
  \<open>999.999.999.999\<close> is accepted. A \<open>GET\<close> request whose address is not a dotted quad
  is answered with status 400 and the body with the members \<open>error\<close>, \<open>tip\<close> and
  \<open>example\<close>; one whose address is a dotted quad is never answered so.
\<close>

theorem validator_accepts_exactly_dotted_quads:
  "(regex_test ipRegex s \<longleftrightarrow> dotted_quad s) \<and>
   regex_test ipRegex (js ''999.999.999.999'') \<and>
   (req_method req = js ''GET'' \<and> \<not> dotted_quad (resolve_ip req) \<longrightarrow>
      handler e req = respond 400 (Some invalid_format_body)) \<and>
   (req_method req = js ''GET'' \<and> dotted_quad (resolve_ip req) \<longrightarrow>
      handler e req \<noteq> respond 400 (Some invalid_format_body)) \<and>
   keys invalid_format_body = [js ''error'', js ''tip'', js ''example'']"
proof -
  have rejected: "handler e req = respond 400 (Some invalid_format_body)"
    if "req_method req = js ''GET''" "\<not> dotted_quad (resolve_ip req)"
    using that by (simp add: handler_GET try_block_invalid ipRegex_dotted_quad)
  have accepted: "handler e req \<noteq> respond 400 (Some invalid_format_body)"
    if "req_method req = js ''GET''" "dotted_quad (resolve_ip req)"
    using that
    by (simp add: handler_GET try_block_valid ipRegex_dotted_quad respond_eq
        rejection_not_invalid split: sum.splits)
  show ?thesis
    using ipRegex_dotted_quad [of s] regex_accepts_999 rejected accepted
      keys_invalid_format_body
    by blast
qed


lemma resolve_ip_get_request: "ip \<noteq> [] \<Longrightarrow> resolve_ip (get_request ip) = ip"
  by (simp add: resolve_ip_def get_request_def truthy_str_def)

lemma req_method_get_request: "req_method (get_request ip) = js ''GET''"
  by (simp add: get_request_def)

theorem validator_accepts_exactly_dotted_quads_witness:
  "\<not> dotted_quad (js ''8.8.8'') \<and>
   handler example_env (get_request (js ''8.8.8'')) = respond 400 (Some invalid_format_body) \<and>
   dotted_quad (js ''999.999.999.999'') \<and>
   handler example_env (get_request (js ''999.999.999.999'')) \<noteq>
     respond 400 (Some invalid_format_body)"
proof -
  have n: "\<not> regex_test ipRegex (js ''8.8.8'')"
    by (simp add: regex_test_def ipRegex_def eval_nat_numeral js_simps)
  have r: "resolve_ip (get_request (js ''8.8.8'')) = js ''8.8.8''"
    "resolve_ip (get_request (js ''999.999.999.999'')) = js ''999.999.999.999''"
    by (simp_all add: resolve_ip_get_request js_simps)
  show ?thesis
    using n r req_method_get_request
      validator_accepts_exactly_dotted_quads
        [of "(js ''8.8.8'')" "get_request (js ''8.8.8'')" example_env]
      validator_accepts_exactly_dotted_quads
        [of "(js ''999.999.999.999'')" "get_request (js ''999.999.999.999'')" example_env]
    by simp
qed

subsection \<open>Upstream rejections and failures\<close>





lemma example_urls:
  "axios_get example_env (js ''http://ip-api.com/json/'' @ js ''192.168.1.1'') =
     Inr (ObjectData example_fail)"
  "axios_get example_env (js ''http://ip-api.com/json/'' @ js ''9.9.9.9'') =
     Inl (JsError (js ''Network Error''))"
  "axios_get example_env (js ''http://ip-api.com/json/'' @ js ''1.1.1.1'') =
     Inr (ObjectData example_odd_zone)"
  "axios_get example_env (js ''http://ip-api.com/json/'' @ js ''8.8.8.8'') =
     Inr (ObjectData example_geo)"
  "axios_get example_env (js ''http://ip-api.com/json/'' @ js ''10.0.0.1'') =
     Inr (ObjectData example_geo)"
  "axios_get example_env (js ''http://ip-api.com/json/'' @ js ''4.4.4.4'') =
     Inr (TextData (js ''Too many requests, slow down''))"
  "axios_get example_env (js ''http://ip-api.com/json/'' @ js ''5.5.5.5'') = Inr NullData"
  by (simp_all add: example_env_def js_simps)

lemma example_valid:
  "regex_test ipRegex (js ''192.168.1.1'')" "regex_test ipRegex (js ''9.9.9.9'')"
  "regex_test ipRegex (js ''1.1.1.1'')" "regex_test ipRegex (js ''8.8.8.8'')"
  "regex_test ipRegex (js ''10.0.0.1'')" "regex_test ipRegex (js ''4.4.4.4'')"
  "regex_test ipRegex (js ''5.5.5.5'')"
  by (simp_all add: regex_test_def ipRegex_def eval_nat_numeral js_simps)

lemma example_resolve:
  "resolve_ip (get_request (js ''192.168.1.1'')) = js ''192.168.1.1''"
  "resolve_ip (get_request (js ''9.9.9.9'')) = js ''9.9.9.9''"
  "resolve_ip (get_request (js ''1.1.1.1'')) = js ''1.1.1.1''"
  "resolve_ip (get_request (js ''8.8.8.8'')) = js ''8.8.8.8''"
  "resolve_ip (get_request (js ''10.0.0.1'')) = js ''10.0.0.1''"
  "resolve_ip (get_request (js ''4.4.4.4'')) = js ''4.4.4.4''"
  "resolve_ip (get_request (js ''5.5.5.5'')) = js ''5.5.5.5''"
  by (simp_all add: resolve_ip_get_request js_simps)





subsection \<open>The composed payload\<close>

lemma completeInfo_Inr:
  assumes "completeInfo e ip ipData = Inr info"
  obtains current_time where "toLocaleString e (timezone ipData) = Inr current_time"
    and "info =
      JObj [(js ''success'', JBool True),
            (js ''message'',
               JStr ([0xD83C, 0xDF89] @ js '' IP information retrieved successfully!'')),
            (js ''requested_ip'', JStr ip),
            (js ''timestamp'', JStr (toISOString e)),
            (js ''api_version'', JStr (js ''1.0'')),
            (js ''steps'', steps e current_time ip ipData),
            (js ''summary'', summary e ip ipData),
            (js ''quick_links'', quick_links e ip ipData)]"
  using assms by (auto simp: completeInfo_def split: sum.splits)

lemma keys_steps:
  "keys (steps e current_time ip ipData) =
     [section1_key, section2_key,
      section3_key, section4_key,
      section5_key, section6_key,
      section7_key, section8_key,
      section9_key, section10_key]"
  by (simp add: keys_def steps_def)

lemmas section_keys =
  section1_key_def section2_key_def section3_key_def section4_key_def section5_key_def
  section6_key_def section7_key_def section8_key_def section9_key_def section10_key_def

lemma distinct_keys_steps: "distinct (keys (steps e current_time ip ipData))"
  unfolding keys_steps by (simp add: section_keys js_simps)

text \<open>
  Whatever the address and the record, a composed payload has the eight members of the
  envelope, ten distinct keys under \<open>steps\<close>, a summary and the quick links, and
  \<open>requested_ip\<close> is the address.
\<close>

lemma completeInfo_structure:
  assumes "completeInfo e ip ipData = Inr info"
  shows "keys info =
           [js ''success'', js ''message'', js ''requested_ip'', js ''timestamp'',
            js ''api_version'', js ''steps'', js ''summary'', js ''quick_links'']"
    and "member info (js ''requested_ip'') = Some (JStr ip)"
    and "\<exists>st. member info (js ''steps'') = Some st \<and> length (keys st) = 10 \<and> distinct (keys st)"
    and "member info (js ''summary'') = Some (summary e ip ipData)"
    and "member info (js ''quick_links'') = Some (quick_links e ip ipData)"
proof -
  from assms obtain ct where info: "info =
      JObj [(js ''success'', JBool True),
            (js ''message'',
               JStr ([0xD83C, 0xDF89] @ js '' IP information retrieved successfully!'')),
            (js ''requested_ip'', JStr ip),
            (js ''timestamp'', JStr (toISOString e)),
            (js ''api_version'', JStr (js ''1.0'')),
            (js ''steps'', steps e ct ip ipData),
            (js ''summary'', summary e ip ipData),
            (js ''quick_links'', quick_links e ip ipData)]"
    by (rule completeInfo_Inr)
  show "keys info =
           [js ''success'', js ''message'', js ''requested_ip'', js ''timestamp'',
            js ''api_version'', js ''steps'', js ''summary'', js ''quick_links'']"
    by (simp add: info keys_def)
  show "member info (js ''requested_ip'') = Some (JStr ip)"
    by (simp add: info member_def js_simps)
  have "member info (js ''steps'') = Some (steps e ct ip ipData)"
    by (simp add: info member_def js_simps)
  moreover have "length (keys (steps e ct ip ipData)) = 10"
    by (simp add: keys_steps)
  ultimately show "\<exists>st. member info (js ''steps'') = Some st \<and> length (keys st) = 10 \<and>
      distinct (keys st)"
    using distinct_keys_steps by blast
  show "member info (js ''summary'') = Some (summary e ip ipData)"
    by (simp add: info member_def js_simps)
  show "member info (js ''quick_links'') = Some (quick_links e ip ipData)"
    by (simp add: info member_def js_simps)
qed


lemma member_info_steps:
  assumes "completeInfo e ip ipData = Inr info"
  obtains current_time where "member info (js ''steps'') = Some (steps e current_time ip ipData)"
proof -
  from assms obtain ct where "info =
      JObj [(js ''success'', JBool True),
            (js ''message'',
               JStr ([0xD83C, 0xDF89] @ js '' IP information retrieved successfully!'')),
            (js ''requested_ip'', JStr ip),
            (js ''timestamp'', JStr (toISOString e)),
            (js ''api_version'', JStr (js ''1.0'')),
            (js ''steps'', steps e ct ip ipData),
            (js ''summary'', summary e ip ipData),
            (js ''quick_links'', quick_links e ip ipData)]"
    by (rule completeInfo_Inr)
  then have "member info (js ''steps'') = Some (steps e ct ip ipData)"
    by (simp add: member_def js_simps)
  then show ?thesis by (rule that)
qed

lemma member_step2:
  "member (steps e current_time ip ipData) section2_key = Some (step2 e ipData)"
  by (simp add: member_def steps_def section_keys js_simps)

lemma member_step3:
  "member (steps e current_time ip ipData) section3_key =
     Some (step3 current_time ipData)"
  by (simp add: member_def steps_def section_keys js_simps)

lemma member_step4:
  "member (steps e current_time ip ipData) section4_key = Some (step4 ip)"
  by (simp add: member_def steps_def section_keys js_simps)

lemma member_threat_level:
  "member (step4 ip) (js ''threat_level'') = Some (JStr threat_level_medium)"
  by (simp add: member_def step4_def js_simps)

lemma member_risk_assessment:
  "member (step4 ip) (js ''risk_assessment'') = Some (JStr (assessRisk ip))"
  by (simp add: member_def step4_def js_simps)

lemma assessRisk_not_medium: "assessRisk ip \<noteq> threat_level_medium"
  by (simp add: assessRisk_def risk_private_def risk_reserved_def risk_bogon_def
      risk_public_def threat_level_medium_def js_simps)

lemma handler_200:
  assumes "handler e req = respond 200 (Some info)"
  obtains ipData where "completeInfo e (resolve_ip req) ipData = Inr info"
proof -
  have get: "req_method req = js ''GET''"
    using assms by (auto simp: handler_def respond_eq split: if_splits)
  have "\<exists>ipData. completeInfo e (resolve_ip req) ipData = Inr info"
    using assms unfolding handler_GET [OF get] try_block_def Let_def
    by (auto simp: respond_eq split: sum.splits if_splits)
  then show ?thesis using that by blast
qed

text \<open>
  C8. In every response with status 200 and a body, the member \<open>threat_level\<close> of the
  fourth section is the fixed label \<open>threat_level_medium\<close>, whatever the address; the
  member \<open>risk_assessment\<close> beside it is \<open>assessRisk\<close> of the address, which is never
  that label, and is the private, reserved or bogon label for such an address.
\<close>

theorem threat_level_constant:
  assumes "handler e req = respond 200 (Some info)"
  shows
    "member_path info [js ''steps'', section4_key, js ''threat_level''] =
       Some (JStr threat_level_medium) \<and>
     member_path info [js ''steps'', section4_key, js ''risk_assessment''] =
       Some (JStr (assessRisk (resolve_ip req))) \<and>
     assessRisk (resolve_ip req) \<noteq> threat_level_medium \<and>
     (isPrivateIP (resolve_ip req) \<longrightarrow> assessRisk (resolve_ip req) = risk_private) \<and>
     (\<not> isPrivateIP (resolve_ip req) \<and> isReservedIP (resolve_ip req) \<longrightarrow>
        assessRisk (resolve_ip req) = risk_reserved) \<and>
     (\<not> isPrivateIP (resolve_ip req) \<and> \<not> isReservedIP (resolve_ip req) \<and>
      isBogonIP (resolve_ip req) \<longrightarrow> assessRisk (resolve_ip req) = risk_bogon)"
proof -
  from assms obtain ipData where "completeInfo e (resolve_ip req) ipData = Inr info"
    by (rule handler_200)
  then obtain ct where "member info (js ''steps'') = Some (steps e ct (resolve_ip req) ipData)"
    by (rule member_info_steps)
  then have
    "member_path info [js ''steps'', section4_key, js ''threat_level''] =
       Some (JStr threat_level_medium)"
    "member_path info [js ''steps'', section4_key, js ''risk_assessment''] =
       Some (JStr (assessRisk (resolve_ip req)))"
    by (simp_all add: member_step4 member_threat_level member_risk_assessment)
  then show ?thesis
    using assessRisk_not_medium by (simp add: assessRisk_def)
qed

lemma example_success:
  "\<exists>info. completeInfo example_env ip example_geo = Inr info"
  by (simp add: completeInfo_def example_env_def example_geo_def js_simps)

lemma example_handler_200:
  assumes "completeInfo example_env ip example_geo = Inr info"
    and "regex_test ipRegex ip"
    and "axios_get example_env (js ''http://ip-api.com/json/'' @
      ip) = Inr (ObjectData example_geo)"
    and "ip \<noteq> []"
  shows "handler example_env (get_request ip) = respond 200 (Some info)"
  using assms
  by (simp add: handler_GET req_method_get_request try_block_valid resolve_ip_get_request
      read_fields_simps example_geo_def)

theorem threat_level_constant_witness:
  "\<exists>info. handler example_env (get_request (js ''10.0.0.1'')) = respond 200 (Some info) \<and>
     member_path info [js ''steps'', section4_key, js ''threat_level''] =
       Some (JStr threat_level_medium) \<and>
     isPrivateIP (js ''10.0.0.1'') \<and>
     member_path info [js ''steps'', section4_key, js ''risk_assessment''] =
       Some (JStr risk_private)"
proof -
  obtain info where c: "completeInfo example_env (js ''10.0.0.1'') example_geo = Inr info"
    using example_success by blast
  have ne: "(js ''10.0.0.1'') \<noteq> []" by (simp add: js_simps)
  have h: "handler example_env (get_request (js ''10.0.0.1'')) = respond 200 (Some info)"
    by (rule example_handler_200 [OF c example_valid(5) example_urls(5) ne])
  have p: "isPrivateIP (js ''10.0.0.1'')"
    by (simp add: classify_defs parts_of_ten)
  show ?thesis
    using h p threat_level_constant [OF h]
    by (auto simp: example_resolve)
qed

text \<open>
  C7. The success record of the example has no \<open>offset\<close>. The payload composed for
  it has its ten sections, and \<open>requested_ip\<close> is the address, but the member
  \<open>utc_offset\<close> of the third section is \<open>undefined\<close>: the serialiser leaves it out,
  and no placeholder stands in for it. A record with no \<open>city\<close> likewise leaves \<open>city\<close>
  in the second section \<open>undefined\<close>, while the summary of the same payload says
  \<open>Unknown\<close>.
\<close>

theorem composed_payload_not_fully_populated:
  "\<exists>info info'.
     handler example_env (get_request (js ''8.8.8.8'')) = respond 200 (Some info) \<and>
     member info (js ''requested_ip'') = Some (JStr (js ''8.8.8.8'')) \<and>
     offset example_geo = None \<and>
     member_path info [js ''steps'', section3_key, js ''utc_offset''] =
       Some JUndefined \<and>
     completeInfo example_env (js ''8.8.8.8'') (example_geo\<lparr>city := None\<rparr>) = Inr info' \<and>
     member_path info' [js ''steps'', section2_key, js ''city''] = Some JUndefined \<and>
     member_path info' [js ''summary'', js ''location''] =
       Some (JStr (js ''Unknown, United States '' @ [0xD83C, 0xDDFA, 0xD83C, 0xDDF8]))"
proof -
  obtain info where c: "completeInfo example_env (js ''8.8.8.8'') example_geo = Inr info"
    using example_success by blast
  have ne: "(js ''8.8.8.8'') \<noteq> []" by (simp add: js_simps)
  have h: "handler example_env (get_request (js ''8.8.8.8'')) = respond 200 (Some info)"
    by (rule example_handler_200 [OF c example_valid(4) example_urls(4) ne])
  obtain ct where st:
    "member info (js ''steps'') = Some (steps example_env ct (js ''8.8.8.8'') example_geo)"
    using c by (rule member_info_steps)
  have o: "offset example_geo = None" by (simp add: example_geo_def)
  have u: "member (step3 ct example_geo) (js ''utc_offset'') = Some JUndefined"
    by (simp add: member_def step3_def of_num_def o js_simps)
  have p3: "member_path info [js ''steps'', section3_key, js ''utc_offset''] =
       Some JUndefined"
    by (simp add: st member_step3 u)
  obtain info' where c':
    "completeInfo example_env (js ''8.8.8.8'') (example_geo\<lparr>city := None\<rparr>) = Inr info'"
    by (simp add: completeInfo_def example_env_def example_geo_def js_simps)
  obtain ct' where st': "member info' (js ''steps'') =
      Some (steps example_env ct' (js ''8.8.8.8'') (example_geo\<lparr>city := None\<rparr>))"
    using c' by (rule member_info_steps)
  have ci:
    "member (step2 example_env (example_geo\<lparr>city := None\<rparr>)) (js ''city'') = Some JUndefined"
    by (simp add: member_def step2_def of_str_def js_simps)
  have p2: "member_path info' [js ''steps'', section2_key, js ''city''] = Some JUndefined"
    by (simp add: st' member_step2 ci)
  have su: "member info' (js ''summary'') =
      Some (summary example_env (js ''8.8.8.8'') (example_geo\<lparr>city := None\<rparr>))"
    using completeInfo_structure(4) [OF c'] .
  have lo:
    "member (summary example_env (js ''8.8.8.8'') (example_geo\<lparr>city := None\<rparr>))
       (js ''location'') =
      Some (JStr (js ''Unknown, United States '' @ [0xD83C, 0xDDFA, 0xD83C, 0xDDF8]))"
    by (simp add: member_def summary_def str_or_def example_geo_def getCountryFlag_def
        of_str_def toUpperCase_def fromCodePoint_def utf16_encode_def js_simps)
  have ps: "member_path info' [js ''summary'', js ''location''] =
       Some (JStr (js ''Unknown, United States '' @ [0xD83C, 0xDDFA, 0xD83C, 0xDDF8]))"
    by (simp add: su lo)
  show ?thesis
    using h completeInfo_structure(2) [OF c] o p3 c' p2 ps by blast
qed

end
